theory Spec2Isabelle
  imports Complex_Main
begin

section \<open>JavaScript values\<close>

text \<open>
  Numbers. A JavaScript number is a double: a finite value, one of the two infinities
  or NaN. Finite values are kept as exact real numbers, so rounding and the sign of zero
  are not represented; the special values are, because the scheduler's arithmetic
  reaches them (\<open>1000 / undefined\<close>, \<open>1000 / 0\<close>).
\<close>

datatype jsnum = Fin real | PosInf | NegInf | NaN

text \<open>
  The arithmetic of IEEE doubles on these values, for the operators the runner uses:
  \<open>+\<close>, \<open>-\<close>, \<open>*\<close>, \<open>/\<close>, \<open>%\<close>, \<open><\<close>, \<open>Math.min\<close> and \<open>Math.floor\<close>.
\<close>

fun js_neg :: "jsnum \<Rightarrow> jsnum" where
  "js_neg (Fin a) = Fin (- a)"
| "js_neg PosInf = NegInf"
| "js_neg NegInf = PosInf"
| "js_neg NaN = NaN"

fun js_add :: "jsnum \<Rightarrow> jsnum \<Rightarrow> jsnum" where
  "js_add (Fin a) (Fin b) = Fin (a + b)"
| "js_add NaN _ = NaN"
| "js_add _ NaN = NaN"
| "js_add PosInf NegInf = NaN"
| "js_add NegInf PosInf = NaN"
| "js_add PosInf _ = PosInf"
| "js_add _ PosInf = PosInf"
| "js_add NegInf _ = NegInf"
| "js_add _ NegInf = NegInf"

definition js_sub :: "jsnum \<Rightarrow> jsnum \<Rightarrow> jsnum" where
  "js_sub a b = js_add a (js_neg b)"

text \<open>The sign of a product or quotient with an infinite operand.\<close>

definition signed_inf :: "bool \<Rightarrow> jsnum" where
  "signed_inf negative = (if negative then NegInf else PosInf)"

fun js_mul :: "jsnum \<Rightarrow> jsnum \<Rightarrow> jsnum" where
  "js_mul (Fin a) (Fin b) = Fin (a * b)"
| "js_mul NaN _ = NaN"
| "js_mul _ NaN = NaN"
| "js_mul (Fin a) PosInf = (if a = 0 then NaN else signed_inf (a < 0))"
| "js_mul (Fin a) NegInf = (if a = 0 then NaN else signed_inf (a > 0))"
| "js_mul PosInf (Fin b) = (if b = 0 then NaN else signed_inf (b < 0))"
| "js_mul NegInf (Fin b) = (if b = 0 then NaN else signed_inf (b > 0))"
| "js_mul PosInf PosInf = PosInf"
| "js_mul NegInf NegInf = PosInf"
| "js_mul PosInf NegInf = NegInf"
| "js_mul NegInf PosInf = NegInf"

fun js_div :: "jsnum \<Rightarrow> jsnum \<Rightarrow> jsnum" where
  "js_div (Fin a) (Fin b) =
     (if b = 0 then (if a = 0 then NaN else signed_inf (a < 0)) else Fin (a / b))"
| "js_div NaN _ = NaN"
| "js_div _ NaN = NaN"
| "js_div (Fin a) _ = Fin 0"
| "js_div PosInf (Fin b) = signed_inf (b < 0)"
| "js_div NegInf (Fin b) = signed_inf (\<not> b < 0)"
| "js_div _ _ = NaN"

text \<open>
  The remainder \<open>a % b\<close> takes the sign of the dividend: \<open>a - b * trunc (a / b)\<close>.
\<close>

definition trunc :: "real \<Rightarrow> int" where
  "trunc q = (if 0 \<le> q then \<lfloor>q\<rfloor> else \<lceil>q\<rceil>)"

fun js_mod :: "jsnum \<Rightarrow> jsnum \<Rightarrow> jsnum" where
  "js_mod (Fin a) (Fin b) = (if b = 0 then NaN else Fin (a - b * of_int (trunc (a / b))))"
| "js_mod (Fin a) PosInf = Fin a"
| "js_mod (Fin a) NegInf = Fin a"
| "js_mod _ _ = NaN"

fun js_lt :: "jsnum \<Rightarrow> jsnum \<Rightarrow> bool" where
  "js_lt (Fin a) (Fin b) = (a < b)"
| "js_lt NaN _ = False"
| "js_lt _ NaN = False"
| "js_lt NegInf NegInf = False"
| "js_lt NegInf _ = True"
| "js_lt _ NegInf = False"
| "js_lt PosInf _ = False"
| "js_lt _ PosInf = True"

definition js_min :: "jsnum \<Rightarrow> jsnum \<Rightarrow> jsnum" where
  "js_min a b = (if a = NaN \<or> b = NaN then NaN else if js_lt b a then b else a)"

fun js_floor :: "jsnum \<Rightarrow> jsnum" where
  "js_floor (Fin a) = Fin (of_int \<lfloor>a\<rfloor>)"
| "js_floor v = v"

text \<open>
  An optional number: \<open>None\<close> is an absent property, which reads \<open>undefined\<close>.
  \<open>to_number\<close> is the conversion arithmetic applies; \<open>truthy\<close> is the test that
  \<open>||\<close> applies.
\<close>

definition to_number :: "jsnum option \<Rightarrow> jsnum" where
  "to_number v = (case v of None \<Rightarrow> NaN | Some n \<Rightarrow> n)"

definition truthy :: "jsnum option \<Rightarrow> bool" where
  "truthy v = (case v of None \<Rightarrow> False | Some n \<Rightarrow> n \<noteq> Fin 0 \<and> n \<noteq> NaN)"

text \<open>
  \<open>a != b\<close> where \<open>a\<close> is a variable that is \<open>undefined\<close> until first assigned a
  number: \<open>undefined\<close> differs from every number and NaN from everything.
\<close>

definition differs :: "jsnum option \<Rightarrow> jsnum \<Rightarrow> bool" where
  "differs a b = (case a of None \<Rightarrow> True | Some n \<Rightarrow> n = NaN \<or> b = NaN \<or> n \<noteq> b)"

text \<open>
  Assigning \<open>array.length = n\<close> raises a RangeError unless \<open>n\<close> is an integer in
  \<open>[0, 2^32)\<close>.
\<close>

definition array_length :: "jsnum \<Rightarrow> nat option" where
  "array_length n =
     (case n of
        Fin a \<Rightarrow> (if a = of_int \<lfloor>a\<rfloor> \<and> 0 \<le> a \<and> a < 4294967296 then Some (nat \<lfloor>a\<rfloor>) else None)
      | _ \<Rightarrow> None)"

text \<open>
  How many times \<open>for (let i = 0; i < n; i++)\<close> runs its body; \<open>None\<close> when the
  loop never ends.
\<close>

definition for_count :: "jsnum \<Rightarrow> nat option" where
  "for_count n =
     (case n of Fin a \<Rightarrow> Some (nat \<lceil>a\<rceil>) | PosInf \<Rightarrow> None | _ \<Rightarrow> Some 0)"

text \<open>
  Values that can sit in a buffer slot or come back from a program: \<open>undefined\<close>,
  \<open>null\<close>, booleans, numbers, strings and plain objects. An object is the map of
  its own enumerable properties. A string is a list of characters, one per code unit.
  Cells are values: two slots never share one object, as is the case for the fresh
  objects that the runner's resize step and per-cell pass store.
\<close>

datatype jsval =
    VUndef
  | VNull
  | VBool bool
  | VNum jsnum
  | VStr string
  | VObj "string \<Rightarrow> jsval option"

datatype error = NoRendererSpecified | NoContext2d | TypeError | RangeError | Diverges

type_synonym props = "string \<Rightarrow> jsval option"

type_synonym buffer = "jsval list"

text \<open>Decimal rendering of an array index, the property name of a string's character.\<close>

definition digit :: "nat \<Rightarrow> char" where
  "digit n = char_of (48 + n)"

fun show_nat :: "nat \<Rightarrow> string" where
  "show_nat n = (if n < 10 then [digit n] else show_nat (n div 10) @ [digit (n mod 10)])"

declare show_nat.simps [simp del]

text \<open>
  The own enumerable properties that an object spread \<open>{...v}\<close> or
  \<open>Object.assign(_, v)\<close> copies out of \<open>v\<close>: all of an object's, the indexed
  characters of a string, none of anything else.
\<close>

fun own_props :: "jsval \<Rightarrow> props" where
  "own_props (VObj fs) = fs"
| "own_props (VStr s) = map_of (zip (map show_nat [0..<length s]) (map (\<lambda>c. VStr [c]) s))"
| "own_props _ = Map.empty"

text \<open>Property read \<open>v.k\<close> on an object value: a missing property reads \<open>undefined\<close>.\<close>

definition read_prop :: "props \<Rightarrow> string \<Rightarrow> jsval" where
  "read_prop fs k = (case fs k of None \<Rightarrow> VUndef | Some v \<Rightarrow> v)"

text \<open>
  Array element read and write. Reading past the end gives \<open>undefined\<close>; writing past
  the end extends the array, the slots in between reading \<open>undefined\<close>.
\<close>

definition arr_get :: "buffer \<Rightarrow> nat \<Rightarrow> jsval" where
  "arr_get b i = (if i < length b then b ! i else VUndef)"

definition arr_set :: "buffer \<Rightarrow> nat \<Rightarrow> jsval \<Rightarrow> buffer" where
  "arr_set b i v =
     (if i < length b then b[i := v] else b @ replicate (i - length b) VUndef @ [v])"

section \<open>Buffer helpers (modules/buffer.ts)\<close>

text \<open>
  Coordinates and grid dimensions are integers. An omitted dimension argument is
  \<open>None\<close>; \<open>set\<close> and \<open>mergeText\<close> default it to 0 in the parameter list,
  \<open>merge\<close> with \<open>targetCols || 0\<close>.
\<close>

definition or0 :: "int option \<Rightarrow> int" where
  "or0 d = (case d of None \<Rightarrow> 0 | Some c \<Rightarrow> c)"

definition get :: "int \<Rightarrow> int \<Rightarrow> buffer \<Rightarrow> int \<Rightarrow> int \<Rightarrow> jsval" where
  "get x y target targetCols targetRows =
     (if x < 0 \<or> x \<ge> targetCols then VObj Map.empty
      else if y < 0 \<or> y \<ge> targetRows then VObj Map.empty
      else arr_get target (nat (x + y * targetCols)))"

definition set_buf :: "jsval \<Rightarrow> int \<Rightarrow> int \<Rightarrow> buffer \<Rightarrow> int option \<Rightarrow> int option \<Rightarrow> buffer" where
  "set_buf val x y target targetCols targetRows =
     (if x < 0 \<or> x \<ge> or0 targetCols then target
      else if y < 0 \<or> y \<ge> or0 targetRows then target
      else arr_set target (nat (x + y * or0 targetCols)) val)"

text \<open>
  The flattening step of \<open>merge\<close>: a slot whose \<open>typeof\<close> is \<open>"object"\<close> is used
  as it is, anything else is wrapped as \<open>{char: slot}\<close>. \<open>null\<close> has type
  \<open>"object"\<close>, and \<open>Object.assign(null, val)\<close> raises a TypeError.
\<close>

fun flatten :: "jsval \<Rightarrow> error + props" where
  "flatten (VObj fs) = Inr fs"
| "flatten VNull = Inl TypeError"
| "flatten v = Inr [''char'' \<mapsto> v]"

definition merge :: "jsval \<Rightarrow> int \<Rightarrow> int \<Rightarrow> buffer \<Rightarrow> int option \<Rightarrow> int option \<Rightarrow> error + buffer" where
  "merge val x y target targetCols targetRows =
     (if x < 0 \<or> x \<ge> or0 targetCols then Inr target
      else if y < 0 \<or> y \<ge> or0 targetRows then Inr target
      else let i = nat (x + y * or0 targetCols) in
        (case flatten (arr_get target i) of
           Inl e \<Rightarrow> Inl e
         | Inr cell \<Rightarrow> Inr (arr_set target i (VObj (cell ++ own_props val)))))"

text \<open>A loop whose body may raise: the first error ends it.\<close>

fun for_each :: "('a \<Rightarrow> 's \<Rightarrow> error + 's) \<Rightarrow> 'a list \<Rightarrow> 's \<Rightarrow> error + 's" where
  "for_each f [] s = Inr s"
| "for_each f (a # as) s = (case f a s of Inl e \<Rightarrow> Inl e | Inr s' \<Rightarrow> for_each f as s')"

text \<open>The integers \<open>a, a+1, ..., a+n-1\<close> that \<open>for (i = a; i < a + n; i++)\<close> visits.\<close>

definition span :: "int \<Rightarrow> int \<Rightarrow> int list" where
  "span a n = [a..a + n - 1]"

definition setRect ::
  "jsval \<Rightarrow> int \<Rightarrow> int \<Rightarrow> int \<Rightarrow> int \<Rightarrow> buffer \<Rightarrow> int option \<Rightarrow> int option \<Rightarrow> buffer" where
  "setRect val x y w h target targetCols targetRows =
     fold (\<lambda>j. fold (\<lambda>i b. set_buf val i j b targetCols targetRows) (span x w)) (span y h) target"

definition mergeRect ::
  "jsval \<Rightarrow> int \<Rightarrow> int \<Rightarrow> int \<Rightarrow> int \<Rightarrow> buffer \<Rightarrow> int option \<Rightarrow> int option \<Rightarrow> error + buffer" where
  "mergeRect val x y w h target targetCols targetRows =
     for_each (\<lambda>j. for_each (\<lambda>i b. merge val i j b targetCols targetRows) (span x w)) (span y h) target"

text \<open>\<open>text.split(sep)\<close> for a one-character separator: never the empty list.\<close>

fun split_on :: "char \<Rightarrow> string \<Rightarrow> string list" where
  "split_on c [] = [Nil]"
| "split_on c (x # xs) =
     (if x = c then [] # split_on c xs
      else (case split_on c xs of l # ls \<Rightarrow> (x # l) # ls | [] \<Rightarrow> [x # Nil]))"

record text_state =
  ts_col :: int
  ts_row :: int
  ts_target :: buffer
  ts_wrapInfo :: "(jsval \<times> jsval) list"

record text_result =
  offset_col :: int
  offset_row :: int
  wrapInfo :: "(jsval \<times> jsval) list"

text \<open>The body of the inner \<open>forEach\<close>: one character of a line.\<close>

definition merge_char ::
  "props \<Rightarrow> int \<Rightarrow> int \<Rightarrow> int \<Rightarrow> (nat \<times> char) \<Rightarrow> text_state \<Rightarrow> error + text_state" where
  "merge_char mergeObj x targetCols targetRows ic s =
     (let col = x + int (fst ic) in
      case merge (VObj ([''char'' \<mapsto> VStr [snd ic]] ++ mergeObj)) col (ts_row s) (ts_target s)
             (Some targetCols) (Some targetRows) of
        Inl e \<Rightarrow> Inl e
      | Inr t \<Rightarrow> Inr (s\<lparr>ts_col := col, ts_target := t\<rparr>))"

text \<open>The body of the outer \<open>forEach\<close>: one line of the text.\<close>

definition merge_line ::
  "props \<Rightarrow> int \<Rightarrow> int \<Rightarrow> int \<Rightarrow> string \<Rightarrow> text_state \<Rightarrow> error + text_state" where
  "merge_line mergeObj x targetCols targetRows line s =
     (case for_each (merge_char mergeObj x targetCols targetRows)
             (zip [0..<length line] line) s of
        Inl e \<Rightarrow> Inl e
      | Inr s' \<Rightarrow>
          (let first = get x (ts_row s') (ts_target s') targetCols targetRows;
               last = get (x + int (length line) - 1) (ts_row s') (ts_target s') targetCols targetRows
           in Inr (s'\<lparr>ts_wrapInfo := ts_wrapInfo s' @ [(first, last)], ts_row := ts_row s' + 1\<rparr>)))"

text \<open>
  \<open>mergeText\<close> returns the offset record and leaves the target updated; the model
  returns both. Reading \<open>.text\<close> of \<open>null\<close> and calling \<open>.split\<close> on anything but a
  string raise a TypeError.
\<close>

definition merge_lines ::
  "jsval \<Rightarrow> props \<Rightarrow> int \<Rightarrow> int \<Rightarrow> buffer \<Rightarrow> int \<Rightarrow> int \<Rightarrow> error + (text_result \<times> buffer)" where
  "merge_lines text mergeObj x y target targetCols targetRows =
     (case text of
        VStr s \<Rightarrow>
          (case for_each (merge_line mergeObj x targetCols targetRows) (split_on (CHR 0x0A) s)
                  \<lparr>ts_col = x, ts_row = y, ts_target = target, ts_wrapInfo = []\<rparr> of
             Inl e \<Rightarrow> Inl e
           | Inr s' \<Rightarrow>
               Inr (\<lparr>offset_col = ts_col s', offset_row = max y (ts_row s' - 1),
                     wrapInfo = ts_wrapInfo s'\<rparr>, ts_target s'))
      | _ \<Rightarrow> Inl TypeError)"

definition mergeText ::
  "jsval \<Rightarrow> int \<Rightarrow> int \<Rightarrow> buffer \<Rightarrow> int option \<Rightarrow> int option \<Rightarrow> error + (text_result \<times> buffer)" where
  "mergeText textObj x y target targetCols targetRows =
     (case textObj of
        VObj fs \<Rightarrow>
          merge_lines (read_prop fs ''text'') (fs(''text'' := None)) x y target
            (or0 targetCols) (or0 targetRows)
      | VNull \<Rightarrow> Inl TypeError
      | _ \<Rightarrow> merge_lines textObj Map.empty x y target (or0 targetCols) (or0 targetRows))"

section \<open>The runner (index.ts)\<close>

text \<open>
  Records follow the objects of the source; a field \<open>f\<close> of the state object is
  \<open>st_f\<close>, of the settings \<open>s_f\<close>, of the metrics \<open>m_f\<close>, of the pointer \<open>p_f\<close>,
  of the cursor \<open>cur_f\<close>, of the context \<open>ctx_f\<close>, of the program \<open>prog_f\<close> and of
  the closure of \<open>runner\<close> \<open>r_f\<close>.
\<close>

record state =
  st_time :: jsnum
  st_frame :: int
  st_cycle :: int
  st_fps :: jsnum

text \<open>
  What the runner reads of the DOM node \<open>settings.element\<close> at the moment of a call:
  its node name, the computed style values after \<open>parseFloat\<close>, whether a canvas
  yields a 2d context, the width measured for fifty \<open>X\<close> (by \<open>measureText\<close> on a
  canvas, by the bounding box of a span otherwise) and its bounding rectangle.
\<close>

record surface =
  el_nodeName :: string
  el_fontFamily :: string
  el_fontSize :: jsnum
  el_lineHeight :: jsnum
  el_context2d :: bool
  el_textWidth :: jsnum
  el_width :: jsnum
  el_height :: jsnum

text \<open>
  The caller's settings object, as it is read at a call. \<open>cols\<close> and \<open>rows\<close> are
  natural numbers, 0 or absent meaning automatic; \<open>fps\<close> may be absent; the three
  style values are \<open>undefined\<close> when absent.
\<close>

record settings =
  s_element :: "surface option"
  s_cols :: nat
  s_rows :: nat
  s_once :: bool
  s_fps :: "jsnum option"
  s_renderer :: "string option"
  s_restoreState :: bool
  s_color :: jsval
  s_backgroundColor :: jsval
  s_fontWeight :: jsval

record metrics =
  m_aspect :: jsnum
  m_cellWidth :: jsnum
  m_lineHeight :: jsnum
  m_fontFamily :: string
  m_fontSize :: jsnum

record pointer =
  p_x :: jsnum
  p_y :: jsnum
  p_pressed :: bool
  p_px :: jsnum
  p_py :: jsnum
  p_ppressed :: bool

record cursor =
  cur_x :: jsnum
  cur_y :: jsnum
  cur_pressed :: bool
  cur_p_x :: jsnum
  cur_p_y :: jsnum
  cur_p_pressed :: bool

record ctx =
  ctx_frame :: int
  ctx_time :: jsnum
  ctx_cols :: jsnum
  ctx_rows :: jsnum
  ctx_metrics :: metrics
  ctx_width :: jsnum
  ctx_height :: jsnum
  ctx_settings :: settings
  ctx_runtime_cycle :: int
  ctx_runtime_fps :: jsnum

record coord =
  co_x :: nat
  co_y :: nat
  co_index :: nat

datatype event_kind = PointerMove | PointerDown | PointerUp

datatype renderer_kind = CanvasRenderer | TextRenderer

text \<open>
  The program: every phase is optional. A phase that receives the buffer may change it
  and hands it back; \<open>main\<close> also returns its value. The \<open>userData\<close> argument is
  opaque to the runner and is left out, and phases do not raise.
\<close>

record program =
  prog_boot :: "(ctx \<Rightarrow> buffer \<Rightarrow> buffer) option"
  prog_pre :: "(ctx \<Rightarrow> cursor \<Rightarrow> buffer \<Rightarrow> buffer) option"
  prog_main :: "(coord \<Rightarrow> ctx \<Rightarrow> cursor \<Rightarrow> buffer \<Rightarrow> jsval \<times> buffer) option"
  prog_post :: "(ctx \<Rightarrow> cursor \<Rightarrow> buffer \<Rightarrow> buffer) option"
  prog_pointerMove :: "(ctx \<Rightarrow> cursor \<Rightarrow> buffer \<Rightarrow> buffer) option"
  prog_pointerDown :: "(ctx \<Rightarrow> cursor \<Rightarrow> buffer \<Rightarrow> buffer) option"
  prog_pointerUp :: "(ctx \<Rightarrow> cursor \<Rightarrow> buffer \<Rightarrow> buffer) option"

text \<open>
  What a call does to the world outside the closure, in order: the calls into the FPS
  tracker, the storage, the renderer and the program (with the context each is handed,
  and for \<open>pre\<close> the buffer it is handed) and the requests for another animation frame.
\<close>

datatype effect =
    FpsUpdate jsnum
  | Store state
  | CallBoot ctx
  | CallPre ctx buffer
  | CallMain coord ctx
  | CallPost ctx
  | Render renderer_kind ctx buffer
  | CallHandler event_kind ctx
  | RequestFrame

text \<open>
  The variables the closure of \<open>runner\<close> holds between calls. \<open>r_metrics\<close> is
  unassigned until \<open>boot\<close> has run, \<open>r_cols\<close> and \<open>r_rows\<close> until the first resize.
\<close>

record runner =
  r_state :: state
  r_renderer :: renderer_kind
  r_DEFAULT_CELL_STYLE :: props
  r_pointer :: pointer
  r_eventQueue :: "event_kind list"
  r_buffer :: buffer
  r_metrics :: "metrics option"
  r_timeSample :: jsnum
  r_interval :: jsnum
  r_timeOffset :: jsnum
  r_cols :: "jsnum option"
  r_rows :: "jsnum option"
  r_trace :: "effect list"

definition EMPTY_CELL :: jsval where
  "EMPTY_CELL = VStr '' ''"

text \<open>The default cell style is taken from the settings once, when \<open>runner\<close> starts.\<close>

definition DEFAULT_CELL_STYLE :: "settings \<Rightarrow> props" where
  "DEFAULT_CELL_STYLE settings =
     [''color'' \<mapsto> s_color settings,
      ''backgroundColor'' \<mapsto> s_backgroundColor settings,
      ''fontWeight'' \<mapsto> s_fontWeight settings]"

text \<open>\<open>renderers[mergedSettings.renderer] || textRenderer\<close>, the default name being \<open>text\<close>.\<close>

definition select_renderer :: "string option \<Rightarrow> renderer_kind" where
  "select_renderer name = (if name = Some ''canvas'' then CanvasRenderer else TextRenderer)"

text \<open>
  The body of \<open>runner\<close> up to the definition of \<open>loop\<close>: the check of the target
  element and the initial values of the closure's variables. \<open>restore\<close> stands for
  \<open>storage.restore\<close>, whose module is not part of the sources: what it makes of the
  fresh state. The body ends there; it defines \<open>boot\<close> and \<open>loop\<close> and calls neither.
\<close>

definition runner :: "settings \<Rightarrow> (state \<Rightarrow> state) \<Rightarrow> error + runner" where
  "runner settings restore =
     (if s_element settings = None then Inl NoRendererSpecified
      else
        let state0 = \<lparr>st_time = Fin 0, st_frame = 0, st_cycle = 0,
                      st_fps = (if truthy (s_fps settings) then to_number (s_fps settings) else Fin 30)\<rparr>;
            state1 = (if s_restoreState settings
                      then (restore state0)\<lparr>st_cycle := st_cycle (restore state0) + 1\<rparr>
                      else state0)
        in Inr \<lparr>r_state = state1,
                r_renderer = select_renderer (s_renderer settings),
                r_DEFAULT_CELL_STYLE = DEFAULT_CELL_STYLE settings,
                r_pointer = \<lparr>p_x = Fin 0, p_y = Fin 0, p_pressed = False,
                             p_px = Fin 0, p_py = Fin 0, p_ppressed = False\<rparr>,
                r_eventQueue = [],
                r_buffer = [],
                r_metrics = None,
                r_timeSample = Fin 0,
                r_interval = js_div (Fin 1000) (to_number (s_fps settings)),
                r_timeOffset = st_time state1,
                r_cols = None,
                r_rows = None,
                r_trace = []\<rparr>)"

definition calcMetrics :: "surface \<Rightarrow> error + metrics" where
  "calcMetrics el =
     (if el_nodeName el = ''CANVAS'' \<and> \<not> el_context2d el then Inl NoContext2d
      else
        let cellWidth = js_div (el_textWidth el) (Fin 50) in
        Inr \<lparr>m_aspect = js_div cellWidth (el_lineHeight el),
             m_cellWidth = cellWidth,
             m_lineHeight = el_lineHeight el,
             m_fontFamily = el_fontFamily el,
             m_fontSize = el_fontSize el\<rparr>)"

text \<open>
  The \<open>_update\<close> method of a metrics object measures the element again and then runs
  \<open>for (var k in tmp)\<close> over the keys of the new measurement; the body of that loop
  holds nothing but comments.
\<close>

definition metrics_keys :: "string list" where
  "metrics_keys = [''aspect'', ''cellWidth'', ''lineHeight'', ''fontFamily'', ''fontSize'', ''_update'']"

definition metrics_update :: "surface \<Rightarrow> metrics \<Rightarrow> error + metrics" where
  "metrics_update el m =
     (case calcMetrics el of
        Inl e \<Rightarrow> Inl e
      | Inr tmp \<Rightarrow> Inr (fold (\<lambda>k acc. acc) metrics_keys m))"

text \<open>
  \<open>getContext\<close>. \<open>fpsNow\<close> is the \<open>fps\<close> field of the FPS tracker, whose class is not
  part of the sources. Reading the rectangle of a missing element raises a TypeError.
\<close>

definition getContext :: "state \<Rightarrow> settings \<Rightarrow> metrics \<Rightarrow> jsnum \<Rightarrow> error + ctx" where
  "getContext state settings metrics fpsNow =
     (case s_element settings of
        None \<Rightarrow> Inl TypeError
      | Some rect \<Rightarrow>
          Inr \<lparr>ctx_frame = st_frame state,
               ctx_time = st_time state,
               ctx_cols = (if s_cols settings \<noteq> 0 then Fin (of_nat (s_cols settings))
                           else js_floor (js_div (el_width rect) (m_cellWidth metrics))),
               ctx_rows = (if s_rows settings \<noteq> 0 then Fin (of_nat (s_rows settings))
                           else js_floor (js_div (el_height rect) (m_lineHeight metrics))),
               ctx_metrics = metrics,
               ctx_width = el_width rect,
               ctx_height = el_height rect,
               ctx_settings = settings,
               ctx_runtime_cycle = st_cycle state,
               ctx_runtime_fps = fpsNow\<rparr>)"

definition boot :: "program \<Rightarrow> settings \<Rightarrow> jsnum \<Rightarrow> runner \<Rightarrow> error + runner" where
  "boot program settings fpsNow r =
     (case s_element settings of
        None \<Rightarrow> Inl TypeError
      | Some el \<Rightarrow>
          (case calcMetrics el of
             Inl e \<Rightarrow> Inl e
           | Inr metrics \<Rightarrow>
               (case getContext (r_state r) settings metrics fpsNow of
                  Inl e \<Rightarrow> Inl e
                | Inr context \<Rightarrow>
                    (let r1 = r\<lparr>r_metrics := Some metrics\<rparr>;
                         r2 = (case prog_boot program of
                                 None \<Rightarrow> r1
                               | Some f \<Rightarrow> r1\<lparr>r_buffer := f context (r_buffer r1),
                                              r_trace := r_trace r1 @ [CallBoot context]\<rparr>)
                     in Inr (r2\<lparr>r_trace := r_trace r2 @ [RequestFrame]\<rparr>)))))"

subsection \<open>The phases of an accepted tick\<close>

text \<open>Timing update: the sample time, the state and its persistence.\<close>

definition advance :: "jsnum \<Rightarrow> runner \<Rightarrow> runner" where
  "advance t r =
     (let delta = js_sub t (r_timeSample r);
          state' = (r_state r)\<lparr>st_time := js_add t (r_timeOffset r),
                                st_frame := st_frame (r_state r) + 1\<rparr>
      in r\<lparr>r_timeSample := js_sub t (js_mod delta (r_interval r)),
            r_state := state',
            r_trace := r_trace r @ [FpsUpdate t, Store state']\<rparr>)"

definition make_cursor :: "ctx \<Rightarrow> metrics \<Rightarrow> pointer \<Rightarrow> cursor" where
  "make_cursor context metrics pointer =
     \<lparr>cur_x = js_min (js_sub (ctx_cols context) (Fin 1)) (js_div (p_x pointer) (m_cellWidth metrics)),
      cur_y = js_min (js_sub (ctx_rows context) (Fin 1)) (js_div (p_y pointer) (m_lineHeight metrics)),
      cur_pressed = p_pressed pointer,
      cur_p_x = js_div (p_px pointer) (m_cellWidth metrics),
      cur_p_y = js_div (p_py pointer) (m_lineHeight metrics),
      cur_p_pressed = p_ppressed pointer\<rparr>"

definition store_previous :: "pointer \<Rightarrow> pointer" where
  "store_previous pointer =
     pointer\<lparr>p_px := p_x pointer, p_py := p_y pointer, p_ppressed := p_pressed pointer\<rparr>"

text \<open>Step 1: on a change of the grid size (or at the first tick) the buffer is rebuilt.\<close>

definition resize :: "ctx \<Rightarrow> runner \<Rightarrow> error + runner" where
  "resize context r =
     (if differs (r_cols r) (ctx_cols context) \<or> differs (r_rows r) (ctx_rows context) then
        (case array_length (js_mul (ctx_cols context) (ctx_rows context)) of
           None \<Rightarrow> Inl RangeError
         | Some n \<Rightarrow>
             Inr (r\<lparr>r_cols := Some (ctx_cols context),
                    r_rows := Some (ctx_rows context),
                    r_buffer := replicate n (VObj ((r_DEFAULT_CELL_STYLE r)(''char'' \<mapsto> EMPTY_CELL)))\<rparr>))
      else Inr r)"

text \<open>Step 2: \<open>pre\<close>, if the program has one.\<close>

definition call_pre :: "program \<Rightarrow> ctx \<Rightarrow> cursor \<Rightarrow> runner \<Rightarrow> runner" where
  "call_pre program context cursor r =
     (case prog_pre program of
        None \<Rightarrow> r
      | Some f \<Rightarrow> r\<lparr>r_buffer := f context cursor (r_buffer r),
                     r_trace := r_trace r @ [CallPre context (r_buffer r)]\<rparr>)"

text \<open>
  Step 3. What the slot becomes once \<open>main\<close> has returned \<open>out\<close>: the old slot spread
  and overwritten by the fields of an object, or by \<open>char: out\<close> for anything else,
  and a \<open>char\<close> that is then \<open>undefined\<close> or \<open>null\<close> replaced by a space.
\<close>

definition write_cell :: "jsval \<Rightarrow> jsval \<Rightarrow> jsval" where
  "write_cell old out =
     (let merged = (case out of
                      VObj fs \<Rightarrow> own_props old ++ fs
                    | _ \<Rightarrow> (own_props old)(''char'' \<mapsto> out))
      in VObj (if read_prop merged ''char'' = VUndef \<or> read_prop merged ''char'' = VNull
               then merged(''char'' \<mapsto> EMPTY_CELL) else merged))"

text \<open>
  The body of the inner loop for column \<open>i\<close> of row \<open>j\<close>, in a grid of \<open>nc\<close> columns.
\<close>

definition main_cell ::
  "(coord \<Rightarrow> ctx \<Rightarrow> cursor \<Rightarrow> buffer \<Rightarrow> jsval \<times> buffer) \<Rightarrow> ctx \<Rightarrow> cursor \<Rightarrow>
   nat \<Rightarrow> nat \<Rightarrow> nat \<Rightarrow> runner \<Rightarrow> runner" where
  "main_cell f context cursor nc j i r =
     (let offs = j * nc;
          idx = i + offs;
          c = \<lparr>co_x = i, co_y = j, co_index = idx\<rparr>;
          res = f c context cursor (r_buffer r);
          out = fst res;
          b = snd res
      in r\<lparr>r_buffer := arr_set b idx (write_cell (arr_get b idx) out),
            r_trace := r_trace r @ [CallMain c context]\<rparr>)"

text \<open>
  The two nested loops. The column count of a context is a whole number or not finite
  (a pinned natural number or a \<open>Math.floor\<close>), so the row offset \<open>j * context.cols\<close>
  is \<open>j\<close> times the number of columns the inner loop visits.
\<close>

definition call_main :: "program \<Rightarrow> ctx \<Rightarrow> cursor \<Rightarrow> runner \<Rightarrow> error + runner" where
  "call_main program context cursor r =
     (case prog_main program of
        None \<Rightarrow> Inr r
      | Some f \<Rightarrow>
          (case for_count (ctx_rows context) of
             None \<Rightarrow> Inl Diverges
           | Some nr \<Rightarrow>
               if nr = 0 then Inr r
               else (case for_count (ctx_cols context) of
                       None \<Rightarrow> Inl Diverges
                     | Some nc \<Rightarrow>
                         Inr (fold (\<lambda>j. fold (main_cell f context cursor nc j) [0..<nc])
                                [0..<nr] r))))"

text \<open>Steps 4 and 5: \<open>post\<close>, if the program has one, and the renderer.\<close>

definition call_post :: "program \<Rightarrow> ctx \<Rightarrow> cursor \<Rightarrow> runner \<Rightarrow> runner" where
  "call_post program context cursor r =
     (case prog_post program of
        None \<Rightarrow> r
      | Some f \<Rightarrow> r\<lparr>r_buffer := f context cursor (r_buffer r),
                     r_trace := r_trace r @ [CallPost context]\<rparr>)"

definition render :: "ctx \<Rightarrow> runner \<Rightarrow> runner" where
  "render context r = r\<lparr>r_trace := r_trace r @ [Render (r_renderer r) context (r_buffer r)]\<rparr>"

text \<open>Step 6: the queued events, oldest first, each to its handler if there is one.\<close>

fun handler :: "program \<Rightarrow> event_kind \<Rightarrow> (ctx \<Rightarrow> cursor \<Rightarrow> buffer \<Rightarrow> buffer) option" where
  "handler program PointerMove = prog_pointerMove program"
| "handler program PointerDown = prog_pointerDown program"
| "handler program PointerUp = prog_pointerUp program"

definition dispatch :: "program \<Rightarrow> ctx \<Rightarrow> cursor \<Rightarrow> event_kind \<Rightarrow> runner \<Rightarrow> runner" where
  "dispatch program context cursor type r =
     (case handler program type of
        None \<Rightarrow> r
      | Some f \<Rightarrow> r\<lparr>r_buffer := f context cursor (r_buffer r),
                     r_trace := r_trace r @ [CallHandler type context]\<rparr>)"

definition drain :: "program \<Rightarrow> ctx \<Rightarrow> cursor \<Rightarrow> runner \<Rightarrow> runner" where
  "drain program context cursor r =
     (fold (dispatch program context cursor) (r_eventQueue r) r)\<lparr>r_eventQueue := []\<rparr>"

text \<open>Step 7, and the skipped frame: another frame is requested unless \<open>once\<close> is set.\<close>

definition request_frame :: "settings \<Rightarrow> runner \<Rightarrow> runner" where
  "request_frame settings r =
     (if \<not> s_once settings then r\<lparr>r_trace := r_trace r @ [RequestFrame]\<rparr> else r)"

subsection \<open>The main program loop\<close>

text \<open>A signal at time \<open>t\<close> is accepted unless \<open>delta < interval\<close>.\<close>

definition accepted :: "jsnum \<Rightarrow> runner \<Rightarrow> bool" where
  "accepted t r = (\<not> js_lt (js_sub t (r_timeSample r)) (r_interval r))"

text \<open>
  An accepted tick. The context is built from the state as it stands, before the timing
  update. Without metrics (before \<open>boot\<close>) reading \<open>metrics.cellWidth\<close> raises a
  TypeError.
\<close>

definition tick :: "program \<Rightarrow> settings \<Rightarrow> jsnum \<Rightarrow> jsnum \<Rightarrow> runner \<Rightarrow> error + runner" where
  "tick program settings fpsNow t r =
     (case r_metrics r of
        None \<Rightarrow> Inl TypeError
      | Some metrics \<Rightarrow>
          (case getContext (r_state r) settings metrics fpsNow of
             Inl e \<Rightarrow> Inl e
           | Inr context \<Rightarrow>
               (let r1 = advance t r;
                    cursor = make_cursor context metrics (r_pointer r1);
                    r2 = r1\<lparr>r_pointer := store_previous (r_pointer r1)\<rparr>
                in case resize context r2 of
                     Inl e \<Rightarrow> Inl e
                   | Inr r3 \<Rightarrow>
                       (case call_main program context cursor (call_pre program context cursor r3) of
                          Inl e \<Rightarrow> Inl e
                        | Inr r5 \<Rightarrow>
                            Inr (request_frame settings
                                   (drain program context cursor
                                      (render context
                                         (call_post program context cursor r5))))))))"

definition loop :: "program \<Rightarrow> settings \<Rightarrow> jsnum \<Rightarrow> jsnum \<Rightarrow> runner \<Rightarrow> error + runner" where
  "loop program settings fpsNow t r =
     (if js_lt (js_sub t (r_timeSample r)) (r_interval r) then Inr (request_frame settings r)
      else tick program settings fpsNow t r)"

text \<open>A sequence of animation-frame signals, each handled by \<open>loop\<close> in turn.\<close>

fun run :: "program \<Rightarrow> settings \<Rightarrow> jsnum \<Rightarrow> jsnum list \<Rightarrow> runner \<Rightarrow> error + runner" where
  "run program settings fpsNow [] r = Inr r"
| "run program settings fpsNow (t # ts) r =
     (case loop program settings fpsNow t r of
        Inl e \<Rightarrow> Inl e
      | Inr r' \<Rightarrow> run program settings fpsNow ts r')"

text \<open>
  The start the closure is built for: the body of \<open>runner\<close>, then \<open>boot\<close>, then the
  signals in turn.
\<close>

definition run_from_start ::
  "program \<Rightarrow> settings \<Rightarrow> (state \<Rightarrow> state) \<Rightarrow> jsnum \<Rightarrow> jsnum list \<Rightarrow> error + runner" where
  "run_from_start program settings restore fpsNow ts =
     (case runner settings restore of
        Inl e \<Rightarrow> Inl e
      | Inr r0 \<Rightarrow>
          (case boot program settings fpsNow r0 of
             Inl e \<Rightarrow> Inl e
           | Inr r1 \<Rightarrow> run program settings fpsNow ts r1))"

subsection \<open>Reading the effects\<close>

text \<open>The context a call into the program or the renderer was handed.\<close>

fun handed_context :: "effect \<Rightarrow> ctx option" where
  "handed_context (CallBoot c) = Some c"
| "handed_context (CallPre c b) = Some c"
| "handed_context (CallMain co c) = Some c"
| "handed_context (CallPost c) = Some c"
| "handed_context (Render k c b) = Some c"
| "handed_context (CallHandler ty c) = Some c"
| "handed_context _ = None"

text \<open>The effects of the last call: what it appended to the effects before it.\<close>

definition effects_since :: "runner \<Rightarrow> runner \<Rightarrow> effect list" where
  "effects_since r r' = drop (length (r_trace r)) (r_trace r')"

subsection \<open>A small run\<close>

text \<open>
  A text element 30 wide and 20 high whose fifty \<open>X\<close> measure 500 at a line height of
  20: cells are 10 by 20 and the automatic grid is 3 columns by 1 row. The settings ask
  for 30 frames per second. The program has a \<open>main\<close> only, which returns \<open>X\<close> for
  the cell of index 1 and a space elsewhere.
\<close>

definition example_surface :: surface where
  "example_surface =
     \<lparr>el_nodeName = ''PRE'', el_fontFamily = ''monospace'', el_fontSize = Fin 16,
      el_lineHeight = Fin 20, el_context2d = False, el_textWidth = Fin 500,
      el_width = Fin 30, el_height = Fin 20\<rparr>"

definition example_settings :: settings where
  "example_settings =
     \<lparr>s_element = Some example_surface, s_cols = 0, s_rows = 0, s_once = False,
      s_fps = Some (Fin 30), s_renderer = None, s_restoreState = False,
      s_color = VUndef, s_backgroundColor = VUndef, s_fontWeight = VUndef\<rparr>"

definition x_main :: "coord \<Rightarrow> ctx \<Rightarrow> cursor \<Rightarrow> buffer \<Rightarrow> jsval \<times> buffer" where
  "x_main co c cu b = (if co_index co = 1 then VStr ''X'' else VStr '' '', b)"

definition main_only ::
  "(coord \<Rightarrow> ctx \<Rightarrow> cursor \<Rightarrow> buffer \<Rightarrow> jsval \<times> buffer) \<Rightarrow> program" where
  "main_only f =
     \<lparr>prog_boot = None, prog_pre = None, prog_main = Some f, prog_post = None,
      prog_pointerMove = None, prog_pointerDown = None, prog_pointerUp = None\<rparr>"

section \<open>Properties of the buffer helpers\<close>

lemma fold_unchanged: "(\<And>i b. f i b = b) \<Longrightarrow> fold f xs b = b"
  by (induction xs) auto

lemma for_each_unchanged: "(\<And>i b. f i b = Inr b) \<Longrightarrow> for_each f xs b = Inr b"
  by (induction xs) auto

lemma index_in_range:
  fixes x y cols rows :: int
  assumes "0 \<le> x" "x < cols" "0 \<le> y" "y < rows"
  shows "0 \<le> x + y * cols" and "x + y * cols < cols * rows"
proof -
  show "0 \<le> x + y * cols" using assms by simp
  have "y + 1 \<le> rows" using assms by simp
  then have "(y + 1) * cols \<le> rows * cols"
    using assms by (intro mult_right_mono) auto
  then show "x + y * cols < cols * rows"
    using assms by (simp add: algebra_simps)
qed

lemma arr_get_set_same: "arr_get (arr_set b i v) i = v"
  by (simp add: arr_get_def arr_set_def nth_append)

lemma arr_get_set_other: "j \<noteq> i \<Longrightarrow> arr_get (arr_set b i v) j = arr_get b j"
  by (auto simp: arr_get_def arr_set_def nth_append nth_Cons')

text \<open>
  C5 (as amended). \<open>get\<close> cannot raise: it is a total function into values. Outside
  \<open>[0,cols) \<times> [0,rows)\<close> it returns the empty object. Inside, it returns slot
  \<open>x + y * cols\<close> of the array as it is; that value is not \<open>undefined\<close> whenever the
  array holds \<open>cols * rows\<close> slots none of which is \<open>undefined\<close>, which is the state
  the runner's resize step leaves.
\<close>

theorem get_bounds:
  "(x < 0 \<or> x \<ge> cols \<or> y < 0 \<or> y \<ge> rows \<longrightarrow> get x y target cols rows = VObj Map.empty)
   \<and> (0 \<le> x \<and> x < cols \<and> 0 \<le> y \<and> y < rows \<longrightarrow>
        get x y target cols rows = arr_get target (nat (x + y * cols)))
   \<and> (0 \<le> x \<and> x < cols \<and> 0 \<le> y \<and> y < rows
        \<and> int (length target) = cols * rows \<and> VUndef \<notin> set target \<longrightarrow>
        get x y target cols rows \<noteq> VUndef)"
proof (intro conjI impI)
  assume "x < 0 \<or> x \<ge> cols \<or> y < 0 \<or> y \<ge> rows"
  then show "get x y target cols rows = VObj Map.empty"
    by (auto simp: get_def)
next
  assume "0 \<le> x \<and> x < cols \<and> 0 \<le> y \<and> y < rows"
  then show "get x y target cols rows = arr_get target (nat (x + y * cols))"
    by (simp add: get_def)
next
  assume a: "0 \<le> x \<and> x < cols \<and> 0 \<le> y \<and> y < rows
        \<and> int (length target) = cols * rows \<and> VUndef \<notin> set target"
  then have "x + y * cols < cols * rows" "0 \<le> x + y * cols"
    using index_in_range [of x cols y rows] by simp_all
  with a have lt: "nat (x + y * cols) < length target" by linarith
  then have "target ! nat (x + y * cols) \<in> set target" by simp
  with a have "target ! nat (x + y * cols) \<noteq> VUndef" by metis
  with a lt show "get x y target cols rows \<noteq> VUndef"
    by (simp add: get_def arr_get_def)
qed

theorem get_bounds_witness:
  "get 5 0 [VStr ''a'', VStr ''b''] 2 1 = VObj Map.empty
   \<and> get 1 0 [VStr ''a'', VStr ''b''] 2 1 = VStr ''b''
   \<and> get 1 0 [VStr ''a'', VStr ''b''] 2 1 \<noteq> VUndef"
  using get_bounds [of 5 2 0 1 "[VStr ''a'', VStr ''b'']"]
        get_bounds [of 1 2 0 1 "[VStr ''a'', VStr ''b'']"]
  by (simp add: arr_get_def)

text \<open>
  C5 as stated fails: the array may be shorter than the dimensions passed with it. The
  runner itself hands the still empty buffer to \<open>boot\<close> together with a context whose
  grid is not empty, and there the in-bounds read of cell (0,0) is \<open>undefined\<close>.
\<close>

theorem get_short_buffer_counterexample:
  "(0::int) \<le> 0 \<and> (0::int) < 1 \<and> get 0 0 [] 1 1 = VUndef"
  by (simp add: get_def arr_get_def)

text \<open>
  C6. At an in-bounds coordinate \<open>set\<close> stores the value in the slot as it is, whatever
  the slot held and whether or not the value is a bare character; \<open>merge\<close> on a slot
  holding the bare character \<open>c\<close> leaves the object \<open>{char: c}\<close> overwritten by the
  properties of the merge argument (\<open>m ++ n\<close> takes \<open>n\<close>'s entry where \<open>n\<close> has one
  and \<open>m\<close>'s elsewhere). At an out-of-bounds coordinate both leave the buffer as it is
  and \<open>merge\<close> does not raise.
\<close>

theorem set_merge_slot:
  "(0 \<le> x \<and> x < or0 tc \<and> 0 \<le> y \<and> y < or0 tr \<longrightarrow>
      set_buf val x y target tc tr = arr_set target (nat (x + y * or0 tc)) val
      \<and> arr_get (set_buf val x y target tc tr) (nat (x + y * or0 tc)) = val
      \<and> (arr_get target (nat (x + y * or0 tc)) = VStr c \<longrightarrow>
           merge val x y target tc tr =
             Inr (arr_set target (nat (x + y * or0 tc))
                    (VObj ([''char'' \<mapsto> VStr c] ++ own_props val)))))
   \<and> (x < 0 \<or> x \<ge> or0 tc \<or> y < 0 \<or> y \<ge> or0 tr \<longrightarrow>
        set_buf val x y target tc tr = target \<and> merge val x y target tc tr = Inr target)"
  by (auto simp: set_buf_def merge_def arr_get_set_same)

theorem set_merge_slot_witness:
  "set_buf (VStr ''z'') 1 0 [VStr ''a'', VStr ''b''] (Some 2) (Some 1) = [VStr ''a'', VStr ''z'']
   \<and> merge (VObj [''color'' \<mapsto> VStr ''red'']) 1 0 [VStr ''a'', VStr ''b''] (Some 2) (Some 1)
       = Inr [VStr ''a'', VObj [''char'' \<mapsto> VStr ''b'', ''color'' \<mapsto> VStr ''red'']]
   \<and> set_buf (VStr ''z'') 2 0 [VStr ''a'', VStr ''b''] (Some 2) (Some 1) = [VStr ''a'', VStr ''b'']
   \<and> merge (VObj [''color'' \<mapsto> VStr ''red'']) 0 1 [VStr ''a'', VStr ''b''] (Some 2) (Some 1)
       = Inr [VStr ''a'', VStr ''b'']"
  using set_merge_slot [of 1 "Some 2" 0 "Some 1" "VStr ''z''" "[VStr ''a'', VStr ''b'']" "''b''"]
        set_merge_slot [of 1 "Some 2" 0 "Some 1" "VObj [''color'' \<mapsto> VStr ''red'']" "[VStr ''a'', VStr ''b'']" "''b''"]
        set_merge_slot [of 2 "Some 2" 0 "Some 1" "VStr ''z''" "[VStr ''a'', VStr ''b'']" "''b''"]
        set_merge_slot [of 0 "Some 2" 1 "Some 1" "VObj [''color'' \<mapsto> VStr ''red'']" "[VStr ''a'', VStr ''b'']" "''b''"]
  by (simp add: or0_def arr_get_def arr_set_def)

text \<open>
  C7. \<open>mergeText("ab\ncd", 0, 0)\<close> on a 2 by 2 buffer of cells \<open>c0 .. c3\<close> merges
  \<open>a\<close> into cell (0,0), \<open>b\<close> into (1,0), \<open>c\<close> into (0,1) and \<open>d\<close> into (1,1),
  keeping every other property of each cell, and returns the offset
  \<open>{col: 1, row: 1}\<close> together with the first and last cell of each line.
\<close>

theorem mergeText_example:
  "mergeText (VStr (''ab'' @ [CHR 0x0A] @ ''cd'')) 0 0 [VObj c0, VObj c1, VObj c2, VObj c3]
     (Some 2) (Some 2)
   = Inr (\<lparr>offset_col = 1, offset_row = 1,
           wrapInfo = [(VObj (c0(''char'' \<mapsto> VStr ''a'')), VObj (c1(''char'' \<mapsto> VStr ''b''))),
                       (VObj (c2(''char'' \<mapsto> VStr ''c'')), VObj (c3(''char'' \<mapsto> VStr ''d'')))]\<rparr>,
          [VObj (c0(''char'' \<mapsto> VStr ''a'')), VObj (c1(''char'' \<mapsto> VStr ''b'')),
           VObj (c2(''char'' \<mapsto> VStr ''c'')), VObj (c3(''char'' \<mapsto> VStr ''d''))])"
  by (simp add: mergeText_def merge_lines_def merge_line_def merge_char_def merge_def get_def
      or0_def arr_get_def arr_set_def)

text \<open>
  C10. With both dimension arguments omitted every coordinate fails the bounds check,
  so \<open>set\<close> and \<open>merge\<close> return at once and \<open>setRect\<close> and \<open>mergeRect\<close>, which
  only call them, change nothing either, whatever the rectangle.
\<close>

theorem no_dimensions_noop:
  "set_buf val x y target None None = target
   \<and> merge val x y target None None = Inr target
   \<and> setRect val x y w h target None None = target
   \<and> mergeRect val x y w h target None None = Inr target"
proof -
  have s: "\<And>i j b. set_buf val i j b None None = b"
    by (simp add: set_buf_def or0_def)
  have m: "\<And>i j b. merge val i j b None None = Inr b"
    by (simp add: merge_def or0_def)
  show ?thesis
    by (simp add: s m setRect_def mergeRect_def fold_unchanged for_each_unchanged)
qed

section \<open>Properties of the runner\<close>

lemma fold_keeps: "(\<And>x r. g (f x r) = g r) \<Longrightarrow> g (fold f xs r) = g r"
  by (induction xs arbitrary: r) auto

lemma fold_trace:
  "(\<And>x r. r_trace (f x r) = r_trace r @ ev x) \<Longrightarrow>
   r_trace (fold f xs r) = r_trace r @ concat (map ev xs)"
  by (induction xs arbitrary: r) auto

lemma main_cell_trace:
  "r_trace (main_cell f c cu nc j i r) =
     r_trace r @ [CallMain \<lparr>co_x = i, co_y = j, co_index = i + j * nc\<rparr> c]"
  by (simp add: main_cell_def Let_def)

lemma main_cell_keeps:
  "r_state (main_cell f c cu nc j i r) = r_state r"
  "r_timeSample (main_cell f c cu nc j i r) = r_timeSample r"
  "r_interval (main_cell f c cu nc j i r) = r_interval r"
  "r_renderer (main_cell f c cu nc j i r) = r_renderer r"
  "r_eventQueue (main_cell f c cu nc j i r) = r_eventQueue r"
  "r_cols (main_cell f c cu nc j i r) = r_cols r"
  "r_rows (main_cell f c cu nc j i r) = r_rows r"
  by (simp_all add: main_cell_def Let_def)

lemma main_rows_trace:
  "r_trace (fold (\<lambda>j. fold (main_cell f c cu nc j) [0..<nc]) js r) =
     r_trace r @ concat (map (\<lambda>j. map (\<lambda>i. CallMain \<lparr>co_x = i, co_y = j, co_index = i + j * nc\<rparr> c) [0..<nc]) js)"
proof -
  have row: "\<And>j r. r_trace (fold (main_cell f c cu nc j) [0..<nc] r) =
      r_trace r @ map (\<lambda>i. CallMain \<lparr>co_x = i, co_y = j, co_index = i + j * nc\<rparr> c) [0..<nc]"
  proof -
    fix j r
    have "r_trace (fold (main_cell f c cu nc j) [0..<nc] r) =
      r_trace r @ concat (map (\<lambda>i. [CallMain \<lparr>co_x = i, co_y = j, co_index = i + j * nc\<rparr> c]) [0..<nc])"
      by (rule fold_trace) (rule main_cell_trace)
    also have "concat (map (\<lambda>i. [CallMain \<lparr>co_x = i, co_y = j, co_index = i + j * nc\<rparr> c]) [0..<nc])
        = map (\<lambda>i. CallMain \<lparr>co_x = i, co_y = j, co_index = i + j * nc\<rparr> c) [0..<nc]"
      by (induction "[0..<nc]") (auto simp: concat_map_singleton)
    finally show "r_trace (fold (main_cell f c cu nc j) [0..<nc] r) =
      r_trace r @ map (\<lambda>i. CallMain \<lparr>co_x = i, co_y = j, co_index = i + j * nc\<rparr> c) [0..<nc]" .
  qed
  show ?thesis by (rule fold_trace) (rule row)
qed

lemma call_main_trace:
  assumes "call_main program c cu r = Inr r'"
  shows "\<exists>mains. r_trace r' = r_trace r @ mains \<and> (\<forall>e\<in>set mains. \<exists>co. e = CallMain co c)
    \<and> (\<forall>f nr nc j i. prog_main program = Some f \<and> for_count (ctx_rows c) = Some nr
          \<and> for_count (ctx_cols c) = Some nc \<and> j < nr \<and> i < nc \<longrightarrow>
          CallMain \<lparr>co_x = i, co_y = j, co_index = i + j * nc\<rparr> c \<in> set mains)"
proof (cases "prog_main program")
  case None
  with assms show ?thesis by (simp add: call_main_def)
next
  case (Some f)
  show ?thesis
  proof (cases "for_count (ctx_rows c)")
    case None
    with Some assms show ?thesis by (simp add: call_main_def)
  next
    case nr: (Some nr)
    show ?thesis
    proof (cases "nr = 0")
      case True
      with Some nr assms show ?thesis by (simp add: call_main_def)
    next
      case False
      with Some nr assms obtain nc where nc: "for_count (ctx_cols c) = Some nc"
        and r': "r' = fold (\<lambda>j. fold (main_cell f c cu nc j) [0..<nc]) [0..<nr] r"
        by (auto simp: call_main_def split: option.splits)
      let ?m = "concat (map (\<lambda>j. map (\<lambda>i. CallMain \<lparr>co_x = i, co_y = j, co_index = i + j * nc\<rparr> c)
                                    [0..<nc]) [0..<nr])"
      have "\<forall>e\<in>set ?m. \<exists>co. e = CallMain co c" by auto
      moreover have "\<forall>f nr' nc' j i. prog_main program = Some f \<and> for_count (ctx_rows c) = Some nr'
          \<and> for_count (ctx_cols c) = Some nc' \<and> j < nr' \<and> i < nc' \<longrightarrow>
          CallMain \<lparr>co_x = i, co_y = j, co_index = i + j * nc'\<rparr> c \<in> set ?m"
        using nr nc by (auto intro!: bexI [where x = j for j] imageI)
      ultimately show ?thesis
        unfolding r' main_rows_trace by blast
    qed
  qed
qed

lemma call_main_keeps_gen:
  assumes g: "\<And>f nc j i r. g (main_cell f c cu nc j i r) = g r"
    and run: "call_main program c cu r = Inr r'"
  shows "g r' = g r"
proof -
  have rows: "\<And>f nc js r. g (fold (\<lambda>j. fold (main_cell f c cu nc j) [0..<nc]) js r) = g r"
    by (rule fold_keeps) (rule fold_keeps, rule g)
  from run show ?thesis
    by (auto simp: call_main_def rows split: option.splits if_splits)
qed

lemma call_main_keeps:
  assumes "call_main program c cu r = Inr r'"
  shows "r_state r' = r_state r" "r_timeSample r' = r_timeSample r"
    "r_interval r' = r_interval r" "r_renderer r' = r_renderer r" "r_eventQueue r' = r_eventQueue r"
    "r_cols r' = r_cols r" "r_rows r' = r_rows r"
  using assms
  by (rule call_main_keeps_gen [rotated], simp add: main_cell_keeps)+


lemma dispatch_trace:
  "r_trace (dispatch p c cu ty r) =
     r_trace r @ (case handler p ty of None \<Rightarrow> [] | Some f \<Rightarrow> [CallHandler ty c])"
  by (simp add: dispatch_def split: option.split)

lemma dispatch_keeps:
  "r_state (dispatch p c cu ty r) = r_state r"
  "r_timeSample (dispatch p c cu ty r) = r_timeSample r"
  "r_interval (dispatch p c cu ty r) = r_interval r"
  "r_cols (dispatch p c cu ty r) = r_cols r"
  "r_rows (dispatch p c cu ty r) = r_rows r"
  by (simp_all add: dispatch_def split: option.split)

lemma drain_trace:
  "\<exists>hs. r_trace (drain p c cu r) = r_trace r @ hs \<and> (\<forall>e\<in>set hs. \<exists>ty. e = CallHandler ty c)"
proof -
  have "r_trace (fold (dispatch p c cu) (r_eventQueue r) r) =
      r_trace r @ concat (map (\<lambda>ty. case handler p ty of None \<Rightarrow> [] | Some f \<Rightarrow> [CallHandler ty c])
                           (r_eventQueue r))"
    by (rule fold_trace) (rule dispatch_trace)
  then show ?thesis
    by (auto simp: drain_def split: option.splits)
qed

lemma drain_keeps:
  "r_state (drain p c cu r) = r_state r"
  "r_timeSample (drain p c cu r) = r_timeSample r"
  "r_interval (drain p c cu r) = r_interval r"
  "r_cols (drain p c cu r) = r_cols r"
  "r_rows (drain p c cu r) = r_rows r"
  by (simp_all add: drain_def fold_keeps dispatch_keeps)

lemma resize_keeps:
  assumes "resize c r = Inr r'"
  shows "r_state r' = r_state r" "r_timeSample r' = r_timeSample r" "r_interval r' = r_interval r"
    "r_trace r' = r_trace r" "r_renderer r' = r_renderer r"
  using assms by (auto simp: resize_def split: if_splits option.splits)

lemma tick_outcome:
  assumes "tick program settings fpsNow t r = Inr r'"
  shows "\<exists>metrics context r3 mains b hs.
      r_metrics r = Some metrics
    \<and> getContext (r_state r) settings metrics fpsNow = Inr context
    \<and> resize context ((advance t r)\<lparr>r_pointer := store_previous (r_pointer r)\<rparr>) = Inr r3
    \<and> r_trace r' =
        r_trace r @ [FpsUpdate t, Store (r_state r')]
          @ (case prog_pre program of None \<Rightarrow> [] | Some f \<Rightarrow> [CallPre context (r_buffer r3)])
          @ mains
          @ (case prog_post program of None \<Rightarrow> [] | Some f \<Rightarrow> [CallPost context])
          @ [Render (r_renderer r) context b]
          @ hs
          @ (if s_once settings then [] else [RequestFrame])
    \<and> (\<forall>e\<in>set mains. \<exists>co. e = CallMain co context)
    \<and> (\<forall>f nr nc j i. prog_main program = Some f \<and> for_count (ctx_rows context) = Some nr
          \<and> for_count (ctx_cols context) = Some nc \<and> j < nr \<and> i < nc \<longrightarrow>
          CallMain \<lparr>co_x = i, co_y = j, co_index = i + j * nc\<rparr> context \<in> set mains)
    \<and> (\<forall>e\<in>set hs. \<exists>ty. e = CallHandler ty context)
    \<and> r_state r' = (r_state r)\<lparr>st_time := js_add t (r_timeOffset r),
                                  st_frame := st_frame (r_state r) + 1\<rparr>
    \<and> r_timeSample r' = js_sub t (js_mod (js_sub t (r_timeSample r)) (r_interval r))
    \<and> r_interval r' = r_interval r
    \<and> r_cols r' = r_cols r3 \<and> r_rows r' = r_rows r3"
proof -
  from assms obtain metrics where m: "r_metrics r = Some metrics"
    by (auto simp: tick_def split: option.splits)
  from assms m obtain cx where c: "getContext (r_state r) settings metrics fpsNow = Inr cx"
    by (auto simp: tick_def split: sum.splits)
  define r2 where "r2 = (advance t r)\<lparr>r_pointer := store_previous (r_pointer r)\<rparr>"
  define cursor where "cursor = make_cursor cx metrics (r_pointer r)"
  have adv_ptr: "r_pointer (advance t r) = r_pointer r"
    by (simp add: advance_def Let_def)
  from assms m c obtain r3 where r3: "resize cx r2 = Inr r3"
    by (auto simp: tick_def Let_def r2_def adv_ptr split: sum.splits)
  from assms m c r3 obtain r5 where
    r5: "call_main program cx cursor (call_pre program cx cursor r3) = Inr r5"
    and r': "r' = request_frame settings (drain program cx cursor
                    (render cx (call_post program cx cursor r5)))"
    by (auto simp: tick_def Let_def r2_def cursor_def adv_ptr split: sum.splits)
  define r4 where "r4 = call_pre program cx cursor r3"
  define r6 where "r6 = call_post program cx cursor r5"
  define r7 where "r7 = render cx r6"
  define r8 where "r8 = drain program cx cursor r7"
  have t2: "r_trace r2 = r_trace r @ [FpsUpdate t,
      Store ((r_state r)\<lparr>st_time := js_add t (r_timeOffset r), st_frame := st_frame (r_state r) + 1\<rparr>)]"
    and s2: "r_state r2 = (r_state r)\<lparr>st_time := js_add t (r_timeOffset r), st_frame := st_frame (r_state r) + 1\<rparr>"
    and ts2: "r_timeSample r2 = js_sub t (js_mod (js_sub t (r_timeSample r)) (r_interval r))"
    and i2: "r_interval r2 = r_interval r" and k2: "r_renderer r2 = r_renderer r"
    by (simp_all add: r2_def advance_def Let_def)
  note k3 = resize_keeps [OF r3]
  have t4: "r_trace r4 = r_trace r3 @ (case prog_pre program of None \<Rightarrow> [] | Some f \<Rightarrow> [CallPre cx (r_buffer r3)])"
    and k4: "r_state r4 = r_state r3" "r_timeSample r4 = r_timeSample r3" "r_interval r4 = r_interval r3"
      "r_renderer r4 = r_renderer r3" "r_cols r4 = r_cols r3" "r_rows r4 = r_rows r3"
    by (simp_all add: r4_def call_pre_def split: option.split)
  from r5 have r5': "call_main program cx cursor r4 = Inr r5" by (simp add: r4_def)
  from call_main_trace [OF r5'] obtain mains where
    t5: "r_trace r5 = r_trace r4 @ mains" and mains: "\<forall>e\<in>set mains. \<exists>co. e = CallMain co cx"
    and visits: "\<forall>f nr nc j i. prog_main program = Some f \<and> for_count (ctx_rows cx) = Some nr
          \<and> for_count (ctx_cols cx) = Some nc \<and> j < nr \<and> i < nc \<longrightarrow>
          CallMain \<lparr>co_x = i, co_y = j, co_index = i + j * nc\<rparr> cx \<in> set mains"
    by blast
  note k5 = call_main_keeps [OF r5']
  have t6: "r_trace r6 = r_trace r5 @ (case prog_post program of None \<Rightarrow> [] | Some f \<Rightarrow> [CallPost cx])"
    and k6: "r_state r6 = r_state r5" "r_timeSample r6 = r_timeSample r5" "r_interval r6 = r_interval r5"
      "r_renderer r6 = r_renderer r5" "r_cols r6 = r_cols r5" "r_rows r6 = r_rows r5"
    by (simp_all add: r6_def call_post_def split: option.split)
  have t7: "r_trace r7 = r_trace r6 @ [Render (r_renderer r6) cx (r_buffer r6)]"
    and k7: "r_state r7 = r_state r6" "r_timeSample r7 = r_timeSample r6" "r_interval r7 = r_interval r6"
      "r_cols r7 = r_cols r6" "r_rows r7 = r_rows r6"
    by (simp_all add: r7_def render_def)
  from drain_trace [of program cx cursor r7] obtain hs where
    t8: "r_trace r8 = r_trace r7 @ hs" and hs: "\<forall>e\<in>set hs. \<exists>ty. e = CallHandler ty cx"
    unfolding r8_def by blast
  have k8: "r_state r8 = r_state r7" "r_timeSample r8 = r_timeSample r7" "r_interval r8 = r_interval r7"
    "r_cols r8 = r_cols r7" "r_rows r8 = r_rows r7"
    by (simp_all add: r8_def drain_keeps)
  have r'8: "r' = request_frame settings r8"
    by (simp add: r' r8_def r7_def r6_def)
  have t9: "r_trace r' = r_trace r8 @ (if s_once settings then [] else [RequestFrame])"
    and k9: "r_state r' = r_state r8" "r_timeSample r' = r_timeSample r8" "r_interval r' = r_interval r8"
      "r_cols r' = r_cols r8" "r_rows r' = r_rows r8"
    by (simp_all add: r'8 request_frame_def)
  have st: "r_state r' = (r_state r)\<lparr>st_time := js_add t (r_timeOffset r), st_frame := st_frame (r_state r) + 1\<rparr>"
    by (simp add: k9 k8 k7 k6 k5 k4 k3 s2)
  have tr: "r_trace r' = r_trace r @ [FpsUpdate t, Store (r_state r')]
          @ (case prog_pre program of None \<Rightarrow> [] | Some f \<Rightarrow> [CallPre cx (r_buffer r3)])
          @ mains
          @ (case prog_post program of None \<Rightarrow> [] | Some f \<Rightarrow> [CallPost cx])
          @ [Render (r_renderer r) cx (r_buffer r6)]
          @ hs
          @ (if s_once settings then [] else [RequestFrame])"
    by (simp add: t9 t8 t7 t6 t5 t4 k3 t2 st k6 k5 k4 k2)
  have tsm: "r_timeSample r' = js_sub t (js_mod (js_sub t (r_timeSample r)) (r_interval r))"
    by (simp add: k9 k8 k7 k6 k5 k4 k3 ts2)
  have iv: "r_interval r' = r_interval r"
    by (simp add: k9 k8 k7 k6 k5 k4 k3 i2)
  have dims: "r_cols r' = r_cols r3" "r_rows r' = r_rows r3"
    by (simp_all add: k9 k8 k7 k6 k5 k4)
  from m c r3 tr mains visits hs st tsm iv dims show ?thesis
    unfolding r2_def by blast
qed

lemma accepted_loop:
  "accepted t r \<Longrightarrow> loop program settings fpsNow t r = tick program settings fpsNow t r"
  by (simp add: accepted_def loop_def)

lemma upt_3: "[0..<3] = [0, 1, 2]"
  by (simp add: upt_rec)

lemma array_length_Some: "array_length v = Some n \<Longrightarrow> v = Fin (of_nat n)"
proof -
  assume a: "array_length v = Some n"
  then obtain q where v: "v = Fin q" and q: "q = of_int \<lfloor>q\<rfloor>" "0 \<le> q" and n: "n = nat \<lfloor>q\<rfloor>"
    by (auto simp: array_length_def split: jsnum.splits if_splits)
  from q have "0 \<le> \<lfloor>q\<rfloor>" by simp
  with n have "of_nat n = (of_int \<lfloor>q\<rfloor> :: real)" by simp
  with q v show ?thesis by simp
qed

lemma array_length_nat: "n < 4294967296 \<Longrightarrow> array_length (Fin (of_nat n)) = Some n"
  by (simp add: array_length_def)

lemma for_count_nat: "for_count (Fin (of_nat n)) = Some n"
  by (simp add: for_count_def)

lemma call_main_completes:
  "ctx_cols cx = Fin (of_nat nc) \<Longrightarrow> ctx_rows cx = Fin (of_nat nr) \<Longrightarrow>
   \<exists>r'. call_main program cx cu r = Inr r'"
  by (simp add: call_main_def for_count_nat split: option.split)

lemma resize_completes:
  assumes "ctx_cols cx = Fin (of_nat nc)" "ctx_rows cx = Fin (of_nat nr)" "nc * nr < 4294967296"
  shows "\<exists>r'. resize cx r = Inr r'"
proof -
  have "js_mul (ctx_cols cx) (ctx_rows cx) = Fin (of_nat (nc * nr))"
    using assms by simp
  with assms(3) show ?thesis
    by (simp add: resize_def array_length_nat del: of_nat_mult)
qed

lemma loop_completes:
  assumes m: "r_metrics r = Some m"
    and c: "getContext (r_state r) settings m fpsNow = Inr cx"
    and dims: "ctx_cols cx = Fin (of_nat nc)" "ctx_rows cx = Fin (of_nat nr)" "nc * nr < 4294967296"
  shows "\<exists>r'. loop program settings fpsNow t r = Inr r'"
proof (cases "js_lt (js_sub t (r_timeSample r)) (r_interval r)")
  case True
  then show ?thesis by (simp add: loop_def)
next
  case False
  obtain r3 where r3: "resize cx ((advance t r)\<lparr>r_pointer := store_previous (r_pointer (advance t r))\<rparr>) = Inr r3"
    using resize_completes [OF dims] by blast
  obtain r5 where r5: "call_main program cx (make_cursor cx m (r_pointer (advance t r)))
      (call_pre program cx (make_cursor cx m (r_pointer (advance t r))) r3) = Inr r5"
    using call_main_completes [OF dims(1,2)] by blast
  from False m c r3 r5 show ?thesis
    by (simp add: loop_def tick_def Let_def)
qed

lemma write_cell_object:
  "write_cell old (VObj fs) = VObj fs' \<Longrightarrow>
     (\<forall>k. k \<noteq> ''char'' \<longrightarrow> fs' k = (case fs k of Some v \<Rightarrow> Some v | None \<Rightarrow> own_props old k))
     \<and> fs' ''char'' = Some (let c = (case fs ''char'' of Some v \<Rightarrow> v
                                      | None \<Rightarrow> read_prop (own_props old) ''char'')
                            in if c = VUndef \<or> c = VNull then VStr '' '' else c)"
  by (auto simp: write_cell_def Let_def read_prop_def EMPTY_CELL_def map_add_def
      split: option.splits if_splits)

lemma write_cell_other:
  "(\<forall>fs. out \<noteq> VObj fs) \<Longrightarrow> write_cell old out = VObj fs' \<Longrightarrow>
     (\<forall>k. k \<noteq> ''char'' \<longrightarrow> fs' k = own_props old k)
     \<and> fs' ''char'' = Some (if out = VUndef \<or> out = VNull then VStr '' '' else out)"
  by (cases out) (auto simp: write_cell_def Let_def read_prop_def EMPTY_CELL_def
      split: option.splits if_splits)

lemma write_cell_is_object: "\<exists>fs'. write_cell old out = VObj fs'"
  by (simp add: write_cell_def Let_def)

lemma main_only_fields:
  "prog_pre (main_only f) = None" "prog_main (main_only f) = Some f" "prog_post (main_only f) = None"
  by (simp_all add: main_only_def)

lemma drain_main_only: "fold (dispatch (main_only f) c cu) evs r = r"
proof (induction evs)
  case Nil
  show ?case by simp
next
  case (Cons ty evs)
  have "dispatch (main_only f) c cu ty r = r"
    by (cases ty) (simp_all add: dispatch_def main_only_def)
  with Cons show ?case by simp
qed

lemmas example_defs = runner_def boot_def example_settings_def example_surface_def calcMetrics_def
  getContext_def Let_def truthy_def to_number_def select_renderer_def signed_inf_def
  accepted_def js_sub_def main_only_def

lemmas tick_defs = loop_def tick_def advance_def make_cursor_def store_previous_def resize_def
  differs_def array_length_def call_pre_def call_main_def for_count_def main_cell_def
  write_cell_def arr_get_def arr_set_def call_post_def render_def drain_def request_frame_def
  x_main_def DEFAULT_CELL_STYLE_def EMPTY_CELL_def read_prop_def js_min_def trunc_def upt_3

text \<open>
  C1. The per-cell pass is the fold of \<open>main_cell\<close> over the rows and, within a row,
  over the columns. At the cell it visits, with \<open>out\<close> what \<open>main\<close> returned and
  \<open>old\<close> the slot as \<open>main\<close> left it, the new slot is an object \<open>fs'\<close>. If
  \<open>out\<close> is an object, every property of \<open>fs'\<close> but \<open>char\<close> is \<open>out\<close>'s where
  \<open>out\<close> has it and \<open>old\<close>'s where it has not, and \<open>char\<close> is \<open>out\<close>'s or else
  \<open>old\<close>'s, a space standing in for \<open>undefined\<close> and \<open>null\<close>. If \<open>out\<close> is anything
  else, every property but \<open>char\<close> is \<open>old\<close>'s and \<open>char\<close> is \<open>out\<close>, a space
  standing in for \<open>undefined\<close> and \<open>null\<close>. On a grid of 3 columns and 1 row, the first
  accepted tick of the program whose \<open>main\<close> returns \<open>X\<close> at index 1 and a space
  elsewhere leaves the buffer \<open>[" ", "X", " "]\<close>, each cell with the default style.
\<close>

theorem main_pass_cell:
  "(let idx = i + j * nc;
        res = f \<lparr>co_x = i, co_y = j, co_index = idx\<rparr> cx cu (r_buffer r);
        out = fst res;
        old = arr_get (snd res) idx;
        new = arr_get (r_buffer (main_cell f cx cu nc j i r)) idx
    in (\<exists>fs'. new = VObj fs'
         \<and> (\<forall>fs. out = VObj fs \<longrightarrow>
               (\<forall>k. k \<noteq> ''char'' \<longrightarrow> fs' k = (case fs k of Some v \<Rightarrow> Some v | None \<Rightarrow> own_props old k))
               \<and> fs' ''char'' = Some (let c = (case fs ''char'' of Some v \<Rightarrow> v
                                                | None \<Rightarrow> read_prop (own_props old) ''char'')
                                      in if c = VUndef \<or> c = VNull then VStr '' '' else c))
         \<and> ((\<forall>fs. out \<noteq> VObj fs) \<longrightarrow>
               (\<forall>k. k \<noteq> ''char'' \<longrightarrow> fs' k = own_props old k)
               \<and> fs' ''char'' = Some (if out = VUndef \<or> out = VNull then VStr '' '' else out))))
   \<and> (prog_main program = Some f \<and> for_count (ctx_rows cx) = Some nr \<and> for_count (ctx_cols cx) = Some nc \<longrightarrow>
        call_main program cx cu r = Inr (fold (\<lambda>j. fold (main_cell f cx cu nc j) [0..<nc]) [0..<nr] r))
   \<and> (accepted t q \<and> r_metrics q = Some metrics
        \<and> getContext (r_state q) settings metrics fpsNow = Inr c
        \<and> ctx_cols c = Fin 3 \<and> ctx_rows c = Fin 1 \<and> r_cols q = None \<longrightarrow>
        (\<exists>q'. loop (main_only x_main) settings fpsNow t q = Inr q'
           \<and> r_buffer q' = [VObj ((r_DEFAULT_CELL_STYLE q)(''char'' \<mapsto> VStr '' '')),
                             VObj ((r_DEFAULT_CELL_STYLE q)(''char'' \<mapsto> VStr ''X'')),
                             VObj ((r_DEFAULT_CELL_STYLE q)(''char'' \<mapsto> VStr '' ''))]))"
proof (intro conjI)
  let ?idx = "i + j * nc"
  let ?res = "f \<lparr>co_x = i, co_y = j, co_index = ?idx\<rparr> cx cu (r_buffer r)"
  have new: "arr_get (r_buffer (main_cell f cx cu nc j i r)) ?idx
      = write_cell (arr_get (snd ?res) ?idx) (fst ?res)"
    by (simp add: main_cell_def Let_def arr_get_set_same)
  obtain fs' where fs': "write_cell (arr_get (snd ?res) ?idx) (fst ?res) = VObj fs'"
    using write_cell_is_object by blast
  show "let idx = i + j * nc;
        res = f \<lparr>co_x = i, co_y = j, co_index = idx\<rparr> cx cu (r_buffer r);
        out = fst res;
        old = arr_get (snd res) idx;
        new = arr_get (r_buffer (main_cell f cx cu nc j i r)) idx
    in (\<exists>fs'. new = VObj fs'
         \<and> (\<forall>fs. out = VObj fs \<longrightarrow>
               (\<forall>k. k \<noteq> ''char'' \<longrightarrow> fs' k = (case fs k of Some v \<Rightarrow> Some v | None \<Rightarrow> own_props old k))
               \<and> fs' ''char'' = Some (let c = (case fs ''char'' of Some v \<Rightarrow> v
                                                | None \<Rightarrow> read_prop (own_props old) ''char'')
                                      in if c = VUndef \<or> c = VNull then VStr '' '' else c))
         \<and> ((\<forall>fs. out \<noteq> VObj fs) \<longrightarrow>
               (\<forall>k. k \<noteq> ''char'' \<longrightarrow> fs' k = own_props old k)
               \<and> fs' ''char'' = Some (if out = VUndef \<or> out = VNull then VStr '' '' else out)))"
    unfolding Let_def new fs'
    using write_cell_object [of "arr_get (snd ?res) ?idx" _ fs']
      write_cell_other [of "fst ?res" "arr_get (snd ?res) ?idx" fs'] fs'
    by (intro exI [of _ fs'] conjI allI impI) (simp_all add: Let_def)
next
  show "prog_main program = Some f \<and> for_count (ctx_rows cx) = Some nr \<and> for_count (ctx_cols cx) = Some nc \<longrightarrow>
        call_main program cx cu r = Inr (fold (\<lambda>j. fold (main_cell f cx cu nc j) [0..<nc]) [0..<nr] r)"
    by (auto simp: call_main_def)
next
  show "accepted t q \<and> r_metrics q = Some metrics
        \<and> getContext (r_state q) settings metrics fpsNow = Inr c
        \<and> ctx_cols c = Fin 3 \<and> ctx_rows c = Fin 1 \<and> r_cols q = None \<longrightarrow>
        (\<exists>q'. loop (main_only x_main) settings fpsNow t q = Inr q'
           \<and> r_buffer q' = [VObj ((r_DEFAULT_CELL_STYLE q)(''char'' \<mapsto> VStr '' '')),
                             VObj ((r_DEFAULT_CELL_STYLE q)(''char'' \<mapsto> VStr ''X'')),
                             VObj ((r_DEFAULT_CELL_STYLE q)(''char'' \<mapsto> VStr '' ''))])"
  proof
    assume a: "accepted t q \<and> r_metrics q = Some metrics
        \<and> getContext (r_state q) settings metrics fpsNow = Inr c
        \<and> ctx_cols c = Fin 3 \<and> ctx_rows c = Fin 1 \<and> r_cols q = None"
    then have acc: "accepted t q" by simp
    have three: "replicate 3 x = [x, x, x]" for x :: jsval
      by (simp add: numeral_3_eq_3)
    from a show "\<exists>q'. loop (main_only x_main) settings fpsNow t q = Inr q'
           \<and> r_buffer q' = [VObj ((r_DEFAULT_CELL_STYLE q)(''char'' \<mapsto> VStr '' '')),
                             VObj ((r_DEFAULT_CELL_STYLE q)(''char'' \<mapsto> VStr ''X'')),
                             VObj ((r_DEFAULT_CELL_STYLE q)(''char'' \<mapsto> VStr '' ''))]"
      unfolding accepted_loop [OF acc]
      by (simp add: tick_def Let_def advance_def resize_def differs_def array_length_def
          call_pre_def call_main_def for_count_def main_only_fields drain_main_only main_cell_def x_main_def
          write_cell_def read_prop_def EMPTY_CELL_def arr_get_def arr_set_def call_post_def
          render_def drain_def request_frame_def upt_3 three)
  qed
qed

lemma example_start:
  "\<exists>r0 r1 m c. runner example_settings (\<lambda>s. s) = Inr r0
     \<and> boot (main_only x_main) example_settings (Fin 0) r0 = Inr r1
     \<and> accepted (Fin 40) r1 \<and> r_metrics r1 = Some m
     \<and> getContext (r_state r1) example_settings m (Fin 0) = Inr c
     \<and> ctx_cols c = Fin 3 \<and> ctx_rows c = Fin 1 \<and> r_cols r1 = None
     \<and> r_DEFAULT_CELL_STYLE r1 = DEFAULT_CELL_STYLE example_settings"
  by (simp add: example_defs)

text \<open>
  C1 on the small run: the first tick at 40 ms, then a \<open>main\<close> returning
  \<open>{color: "red"}\<close> and one returning \<open>null\<close> at the cell holding \<open>X\<close>.
\<close>

theorem main_pass_cell_witness:
  "\<exists>r0 r1 r2 cx cu fs1 fs2.
      runner example_settings (\<lambda>s. s) = Inr r0
    \<and> boot (main_only x_main) example_settings (Fin 0) r0 = Inr r1
    \<and> accepted (Fin 40) r1
    \<and> loop (main_only x_main) example_settings (Fin 0) (Fin 40) r1 = Inr r2
    \<and> r_buffer r2 = [VObj ((DEFAULT_CELL_STYLE example_settings)(''char'' \<mapsto> VStr '' '')),
                      VObj ((DEFAULT_CELL_STYLE example_settings)(''char'' \<mapsto> VStr ''X'')),
                      VObj ((DEFAULT_CELL_STYLE example_settings)(''char'' \<mapsto> VStr '' ''))]
    \<and> arr_get (r_buffer (main_cell (\<lambda>co c cu b. (VObj [''color'' \<mapsto> VStr ''red''], b)) cx cu 3 0 1 r2)) 1
        = VObj fs1
    \<and> fs1 ''char'' = Some (VStr ''X'') \<and> fs1 ''color'' = Some (VStr ''red'')
    \<and> fs1 ''fontWeight'' = Some VUndef
    \<and> arr_get (r_buffer (main_cell (\<lambda>co c cu b. (VNull, b)) cx cu 3 0 1 r2)) 1 = VObj fs2
    \<and> fs2 ''char'' = Some (VStr '' '') \<and> fs2 ''color'' = Some VUndef"
proof -
  from example_start obtain r0 r1 m c where
    r0: "runner example_settings (\<lambda>s. s) = Inr r0"
    and r1: "boot (main_only x_main) example_settings (Fin 0) r0 = Inr r1"
    and acc: "accepted (Fin 40) r1" and m: "r_metrics r1 = Some m"
    and c: "getContext (r_state r1) example_settings m (Fin 0) = Inr c"
    and dims: "ctx_cols c = Fin 3" "ctx_rows c = Fin 1" "r_cols r1 = None"
    and style: "r_DEFAULT_CELL_STYLE r1 = DEFAULT_CELL_STYLE example_settings"
    by blast
  from main_pass_cell [where t = "Fin 40" and q = r1 and metrics = m and settings = example_settings
      and fpsNow = "Fin 0" and c = c] acc m c dims
  obtain r2 where r2: "loop (main_only x_main) example_settings (Fin 0) (Fin 40) r1 = Inr r2"
    and b2: "r_buffer r2 = [VObj ((DEFAULT_CELL_STYLE example_settings)(''char'' \<mapsto> VStr '' '')),
                      VObj ((DEFAULT_CELL_STYLE example_settings)(''char'' \<mapsto> VStr ''X'')),
                      VObj ((DEFAULT_CELL_STYLE example_settings)(''char'' \<mapsto> VStr '' ''))]"
    unfolding style by blast
  define cu where "cu = make_cursor c m (r_pointer r1)"
  have old: "arr_get (r_buffer r2) (Suc 0) = VObj ((DEFAULT_CELL_STYLE example_settings)(''char'' \<mapsto> VStr ''X''))"
    by (simp add: b2 arr_get_def)
  have "\<exists>fs1. arr_get (r_buffer (main_cell (\<lambda>co c cu b. (VObj [''color'' \<mapsto> VStr ''red''], b)) c cu 3 0 1 r2)) 1
        = VObj fs1
      \<and> fs1 ''char'' = Some (VStr ''X'') \<and> fs1 ''color'' = Some (VStr ''red'')
      \<and> fs1 ''fontWeight'' = Some VUndef"
    using main_pass_cell [where i = 1 and j = 0 and nc = 3 and r = r2 and cx = c
      and cu = cu and f = "\<lambda>co c cu b. (VObj [''color'' \<mapsto> VStr ''red''], b)", THEN conjunct1]
    by (auto simp: Let_def old read_prop_def DEFAULT_CELL_STYLE_def example_settings_def)
  then obtain fs1 where fs1: "arr_get (r_buffer (main_cell (\<lambda>co c cu b. (VObj [''color'' \<mapsto> VStr ''red''], b)) c cu 3 0 1 r2)) 1 = VObj fs1"
    "fs1 ''char'' = Some (VStr ''X'')" "fs1 ''color'' = Some (VStr ''red'')"
    "fs1 ''fontWeight'' = Some VUndef"
    by blast
  have "\<exists>fs2. arr_get (r_buffer (main_cell (\<lambda>co c cu b. (VNull, b)) c cu 3 0 1 r2)) 1 = VObj fs2
      \<and> fs2 ''char'' = Some (VStr '' '') \<and> fs2 ''color'' = Some VUndef"
    using main_pass_cell [where i = 1 and j = 0 and nc = 3 and r = r2 and cx = c
      and cu = cu and f = "\<lambda>co c cu b. (VNull, b)", THEN conjunct1]
    by (auto simp: Let_def old read_prop_def DEFAULT_CELL_STYLE_def example_settings_def)
  then obtain fs2 where fs2: "arr_get (r_buffer (main_cell (\<lambda>co c cu b. (VNull, b)) c cu 3 0 1 r2)) 1 = VObj fs2"
    "fs2 ''char'' = Some (VStr '' '')" "fs2 ''color'' = Some VUndef"
    by blast
  from r0 r1 acc r2 b2 fs1 fs2 show ?thesis by blast
qed

text \<open>
  C3. When the stored grid size differs from the context's (it differs from everything
  before the first resize) and the resize step does not raise, the buffer it leaves has
  \<open>cols * rows\<close> slots, each the default style with a space as \<open>char\<close>, and the
  stored size is the context's. In an accepted tick of a program with a \<open>pre\<close>, the
  effects of the tick begin with the FPS update and the store, and the next is the call
  of \<open>pre\<close>, which is handed exactly that buffer; after the tick the stored size is
  the size of this tick's context. The resize step does not raise when the context's
  columns and rows are natural numbers whose product is below \<open>2^32\<close>.
\<close>

theorem resize_before_pre:
  "((differs (r_cols r) (ctx_cols cx) \<or> differs (r_rows r) (ctx_rows cx)) \<and> resize cx r = Inr r3 \<longrightarrow>
      Fin (of_nat (length (r_buffer r3))) = js_mul (ctx_cols cx) (ctx_rows cx)
      \<and> (\<forall>cell\<in>set (r_buffer r3). cell = VObj ((r_DEFAULT_CELL_STYLE r)(''char'' \<mapsto> VStr '' '')))
      \<and> r_cols r3 = Some (ctx_cols cx) \<and> r_rows r3 = Some (ctx_rows cx))
   \<and> (ctx_cols cx = Fin (of_nat nc) \<and> ctx_rows cx = Fin (of_nat nr) \<and> nc * nr < 4294967296 \<longrightarrow>
        (\<exists>r3. resize cx r = Inr r3))
   \<and> (accepted t q \<and> loop program settings fpsNow t q = Inr q'
       \<and> r_metrics q = Some metrics \<and> getContext (r_state q) settings metrics fpsNow = Inr c
       \<and> (differs (r_cols q) (ctx_cols c) \<or> differs (r_rows q) (ctx_rows c))
       \<and> prog_pre program = Some f \<longrightarrow>
       (\<exists>n rest. Fin (of_nat n) = js_mul (ctx_cols c) (ctx_rows c)
          \<and> effects_since q q' =
              [FpsUpdate t, Store (r_state q'),
               CallPre c (replicate n (VObj ((r_DEFAULT_CELL_STYLE q)(''char'' \<mapsto> VStr '' ''))))] @ rest)
       \<and> r_cols q' = Some (ctx_cols c) \<and> r_rows q' = Some (ctx_rows c))"
proof (intro conjI impI)
  assume a: "(differs (r_cols r) (ctx_cols cx) \<or> differs (r_rows r) (ctx_rows cx)) \<and> resize cx r = Inr r3"
  then obtain n where n: "array_length (js_mul (ctx_cols cx) (ctx_rows cx)) = Some n"
    and r3: "r3 = r\<lparr>r_cols := Some (ctx_cols cx), r_rows := Some (ctx_rows cx),
                   r_buffer := replicate n (VObj ((r_DEFAULT_CELL_STYLE r)(''char'' \<mapsto> EMPTY_CELL)))\<rparr>"
    by (auto simp: resize_def split: option.splits)
  from array_length_Some [OF n]
  show "Fin (of_nat (length (r_buffer r3))) = js_mul (ctx_cols cx) (ctx_rows cx)"
    by (simp add: r3)
  show "\<forall>cell\<in>set (r_buffer r3). cell = VObj ((r_DEFAULT_CELL_STYLE r)(''char'' \<mapsto> VStr '' ''))"
    by (simp add: r3 EMPTY_CELL_def)
  show "r_cols r3 = Some (ctx_cols cx)" "r_rows r3 = Some (ctx_rows cx)"
    by (simp_all add: r3)
next
  assume "ctx_cols cx = Fin (of_nat nc) \<and> ctx_rows cx = Fin (of_nat nr) \<and> nc * nr < 4294967296"
  then show "\<exists>r3. resize cx r = Inr r3"
    using resize_completes [of cx nc nr r] by simp
next
  assume a: "accepted t q \<and> loop program settings fpsNow t q = Inr q'
       \<and> r_metrics q = Some metrics \<and> getContext (r_state q) settings metrics fpsNow = Inr c
       \<and> (differs (r_cols q) (ctx_cols c) \<or> differs (r_rows q) (ctx_rows c))
       \<and> prog_pre program = Some f"
  then have "accepted t q" and "loop program settings fpsNow t q = Inr q'"
    by simp_all
  then have "tick program settings fpsNow t q = Inr q'"
    using accepted_loop [of t q program settings fpsNow] by simp
  from tick_outcome [OF this] a obtain r3 :: runner and mains b hs where
    r3: "resize c ((advance t q)\<lparr>r_pointer := store_previous (r_pointer q)\<rparr>) = Inr r3"
    and tr: "r_trace q' =
        r_trace q @ [FpsUpdate t, Store (r_state q')]
          @ [CallPre c (r_buffer r3)]
          @ mains
          @ (case prog_post program of None \<Rightarrow> [] | Some f \<Rightarrow> [CallPost c])
          @ [Render (r_renderer q) c b]
          @ hs
          @ (if s_once settings then [] else [RequestFrame])"
    and dims: "r_cols q' = r_cols r3" "r_rows q' = r_rows r3"
    by auto
  let ?q2 = "(advance t q)\<lparr>r_pointer := store_previous (r_pointer q)\<rparr>"
  have same: "r_cols ?q2 = r_cols q" "r_rows ?q2 = r_rows q"
    "r_DEFAULT_CELL_STYLE ?q2 = r_DEFAULT_CELL_STYLE q"
    by (simp_all add: advance_def Let_def)
  from a r3 same obtain n where n: "array_length (js_mul (ctx_cols c) (ctx_rows c)) = Some n"
    and r3': "r3 = ?q2\<lparr>r_cols := Some (ctx_cols c), r_rows := Some (ctx_rows c),
                   r_buffer := replicate n (VObj ((r_DEFAULT_CELL_STYLE q)(''char'' \<mapsto> EMPTY_CELL)))\<rparr>"
    by (auto simp: resize_def split: option.splits)
  have "effects_since q q' =
              [FpsUpdate t, Store (r_state q'),
               CallPre c (replicate n (VObj ((r_DEFAULT_CELL_STYLE q)(''char'' \<mapsto> VStr '' ''))))]
              @ (mains @ (case prog_post program of None \<Rightarrow> [] | Some f \<Rightarrow> [CallPost c])
                  @ [Render (r_renderer q) c b] @ hs @ (if s_once settings then [] else [RequestFrame]))"
    by (simp add: effects_since_def tr r3' EMPTY_CELL_def)
  with array_length_Some [OF n]
  show "\<exists>n rest. Fin (of_nat n) = js_mul (ctx_cols c) (ctx_rows c)
          \<and> effects_since q q' =
              [FpsUpdate t, Store (r_state q'),
               CallPre c (replicate n (VObj ((r_DEFAULT_CELL_STYLE q)(''char'' \<mapsto> VStr '' ''))))] @ rest"
    by metis
  show "r_cols q' = Some (ctx_cols c)" "r_rows q' = Some (ctx_rows c)"
    by (simp_all add: dims r3')
qed

text \<open>C3 on the small run, with an identity \<open>pre\<close>: the first tick builds 3 cells.\<close>

theorem resize_before_pre_witness:
  "\<exists>r0 r1 r2 r3 m c rest.
      runner example_settings (\<lambda>s. s) = Inr r0
    \<and> boot ((main_only x_main)\<lparr>prog_pre := Some (\<lambda>c cu b. b)\<rparr>) example_settings (Fin 0) r0 = Inr r1
    \<and> r_metrics r1 = Some m
    \<and> getContext (r_state r1) example_settings m (Fin 0) = Inr c
    \<and> differs (r_cols r1) (ctx_cols c)
    \<and> ctx_cols c = Fin (of_nat 3) \<and> ctx_rows c = Fin (of_nat 1)
    \<and> resize c r1 = Inr r3
    \<and> length (r_buffer r3) = 3
    \<and> (\<forall>cell\<in>set (r_buffer r3). cell = VObj ((DEFAULT_CELL_STYLE example_settings)(''char'' \<mapsto> VStr '' '')))
    \<and> accepted (Fin 40) r1
    \<and> loop ((main_only x_main)\<lparr>prog_pre := Some (\<lambda>c cu b. b)\<rparr>) example_settings (Fin 0) (Fin 40) r1 = Inr r2
    \<and> effects_since r1 r2 =
        [FpsUpdate (Fin 40), Store (r_state r2),
         CallPre c (replicate 3 (VObj ((DEFAULT_CELL_STYLE example_settings)(''char'' \<mapsto> VStr '' ''))))] @ rest"
proof -
  let ?P = "(main_only x_main)\<lparr>prog_pre := Some (\<lambda>c cu b. b)\<rparr>"
  have "\<exists>r0 r1 r2 r3 m c.
      runner example_settings (\<lambda>s. s) = Inr r0
    \<and> boot ?P example_settings (Fin 0) r0 = Inr r1
    \<and> r_metrics r1 = Some m
    \<and> getContext (r_state r1) example_settings m (Fin 0) = Inr c
    \<and> ctx_cols c = Fin 3 \<and> ctx_rows c = Fin 1 \<and> r_cols r1 = None
    \<and> r_DEFAULT_CELL_STYLE r1 = DEFAULT_CELL_STYLE example_settings
    \<and> resize c r1 = Inr r3
    \<and> accepted (Fin 40) r1
    \<and> loop ?P example_settings (Fin 0) (Fin 40) r1 = Inr r2"
    by (simp add: example_defs tick_defs)
  then obtain r0 r1 r2 r3 m c where
    r0: "runner example_settings (\<lambda>s. s) = Inr r0"
    and r1: "boot ?P example_settings (Fin 0) r0 = Inr r1"
    and m: "r_metrics r1 = Some m"
    and c: "getContext (r_state r1) example_settings m (Fin 0) = Inr c"
    and dims: "ctx_cols c = Fin 3" "ctx_rows c = Fin 1" "r_cols r1 = None"
    and style: "r_DEFAULT_CELL_STYLE r1 = DEFAULT_CELL_STYLE example_settings"
    and r3: "resize c r1 = Inr r3"
    and acc: "accepted (Fin 40) r1"
    and r2: "loop ?P example_settings (Fin 0) (Fin 40) r1 = Inr r2"
    by blast
  have d: "differs (r_cols r1) (ctx_cols c)"
    by (simp add: dims differs_def)
  have pre: "prog_pre ?P = Some (\<lambda>c cu b. b)" by simp
  note inst = resize_before_pre [where r = r1 and cx = c and ?r3.0 = r3 and t = "Fin 40" and q = r1
      and q' = r2 and program = ?P and settings = example_settings and fpsNow = "Fin 0"
      and metrics = m and c = c and f = "\<lambda>c cu b. b" and nc = 3 and nr = 1]
  from inst [THEN conjunct2, THEN conjunct1] have total: "\<exists>r3. resize c r1 = Inr r3"
    by (simp add: dims)
  from inst [THEN conjunct1] d r3
  have len: "length (r_buffer r3) = 3"
    and cells: "\<forall>cell\<in>set (r_buffer r3). cell = VObj ((DEFAULT_CELL_STYLE example_settings)(''char'' \<mapsto> VStr '' ''))"
    by (simp_all add: dims style)
  from inst [THEN conjunct2, THEN conjunct2] acc r2 m c d pre
  obtain n rest where "Fin (of_nat n) = js_mul (ctx_cols c) (ctx_rows c)"
    and es: "effects_since r1 r2 =
              [FpsUpdate (Fin 40), Store (r_state r2),
               CallPre c (replicate n (VObj ((r_DEFAULT_CELL_STYLE r1)(''char'' \<mapsto> VStr '' ''))))] @ rest"
    by blast
  then have "n = 3" by (simp add: dims)
  with es have "effects_since r1 r2 =
        [FpsUpdate (Fin 40), Store (r_state r2),
         CallPre c (replicate 3 (VObj ((DEFAULT_CELL_STYLE example_settings)(''char'' \<mapsto> VStr '' ''))))] @ rest"
    by (simp add: style)
  moreover have "ctx_cols c = Fin (of_nat 3)" "ctx_rows c = Fin (of_nat 1)"
    by (simp_all add: dims)
  ultimately show ?thesis using r0 r1 m c d r3 len cells acc r2 total by blast
qed

text \<open>
  C9. In an accepted tick that completes, the context is \<open>getContext\<close> of the state
  before the tick: its \<open>frame\<close> and \<open>time\<close> are the state's before the increment.
  Every call of the tick that is handed a context is handed this one; \<open>pre\<close> and
  \<open>post\<close> are called with it when the program has them, and \<open>main\<close> at every cell of
  the grid. The state stored during the tick, which is the state the tick leaves, has
  the frame incremented and the time \<open>t + timeOffset\<close>. The call completes whenever
  the metrics are set, the element is there and the grid has natural numbers of columns
  and rows whose product is below \<open>2^32\<close>.
\<close>

theorem context_snapshot:
  "(accepted t r \<and> loop program settings fpsNow t r = Inr r' \<longrightarrow>
    (\<exists>metrics cx.
      r_metrics r = Some metrics
    \<and> getContext (r_state r) settings metrics fpsNow = Inr cx
    \<and> ctx_frame cx = st_frame (r_state r)
    \<and> ctx_time cx = st_time (r_state r)
    \<and> (\<forall>e\<in>set (effects_since r r'). handed_context e = None \<or> handed_context e = Some cx)
    \<and> (prog_pre program \<noteq> None \<longrightarrow> (\<exists>b. CallPre cx b \<in> set (effects_since r r')))
    \<and> (\<forall>f nr nc j i. prog_main program = Some f \<and> for_count (ctx_rows cx) = Some nr
          \<and> for_count (ctx_cols cx) = Some nc \<and> j < nr \<and> i < nc \<longrightarrow>
          CallMain \<lparr>co_x = i, co_y = j, co_index = i + j * nc\<rparr> cx \<in> set (effects_since r r'))
    \<and> (prog_post program \<noteq> None \<longrightarrow> CallPost cx \<in> set (effects_since r r'))
    \<and> Store (r_state r') \<in> set (effects_since r r')
    \<and> st_frame (r_state r') = st_frame (r_state r) + 1
    \<and> st_time (r_state r') = js_add t (r_timeOffset r)))
   \<and> (r_metrics r = Some m \<and> getContext (r_state r) settings m fpsNow = Inr c
       \<and> ctx_cols c = Fin (of_nat nc) \<and> ctx_rows c = Fin (of_nat nr) \<and> nc * nr < 4294967296 \<longrightarrow>
       (\<exists>q. loop program settings fpsNow t r = Inr q))"
proof (intro conjI impI)
  assume "r_metrics r = Some m \<and> getContext (r_state r) settings m fpsNow = Inr c
       \<and> ctx_cols c = Fin (of_nat nc) \<and> ctx_rows c = Fin (of_nat nr) \<and> nc * nr < 4294967296"
  then show "\<exists>q. loop program settings fpsNow t r = Inr q"
    using loop_completes [of r m settings fpsNow c nc nr program t] by simp
next
  assume "accepted t r \<and> loop program settings fpsNow t r = Inr r'"
  then have acc: "accepted t r" and run: "loop program settings fpsNow t r = Inr r'"
    by simp_all
  from acc run have "tick program settings fpsNow t r = Inr r'"
    by (simp add: accepted_loop)
  from tick_outcome [OF this] obtain metrics cx and r3 :: runner and mains b hs where
    m: "r_metrics r = Some metrics"
    and c: "getContext (r_state r) settings metrics fpsNow = Inr cx"
    and tr: "r_trace r' =
        r_trace r @ [FpsUpdate t, Store (r_state r')]
          @ (case prog_pre program of None \<Rightarrow> [] | Some f \<Rightarrow> [CallPre cx (r_buffer r3)])
          @ mains
          @ (case prog_post program of None \<Rightarrow> [] | Some f \<Rightarrow> [CallPost cx])
          @ [Render (r_renderer r) cx b]
          @ hs
          @ (if s_once settings then [] else [RequestFrame])"
    and mains: "\<forall>e\<in>set mains. \<exists>co. e = CallMain co cx"
    and visits: "\<forall>f nr nc j i. prog_main program = Some f \<and> for_count (ctx_rows cx) = Some nr
          \<and> for_count (ctx_cols cx) = Some nc \<and> j < nr \<and> i < nc \<longrightarrow>
          CallMain \<lparr>co_x = i, co_y = j, co_index = i + j * nc\<rparr> cx \<in> set mains"
    and hs: "\<forall>e\<in>set hs. \<exists>ty. e = CallHandler ty cx"
    and st: "r_state r' = (r_state r)\<lparr>st_time := js_add t (r_timeOffset r),
                                  st_frame := st_frame (r_state r) + 1\<rparr>"
    by blast
  have es: "effects_since r r' = [FpsUpdate t, Store (r_state r')]
          @ (case prog_pre program of None \<Rightarrow> [] | Some f \<Rightarrow> [CallPre cx (r_buffer r3)])
          @ mains
          @ (case prog_post program of None \<Rightarrow> [] | Some f \<Rightarrow> [CallPost cx])
          @ [Render (r_renderer r) cx b]
          @ hs
          @ (if s_once settings then [] else [RequestFrame])"
    by (simp add: effects_since_def tr)
  from c have fr: "ctx_frame cx = st_frame (r_state r)" and ti: "ctx_time cx = st_time (r_state r)"
    by (auto simp: getContext_def split: option.splits)
  have all: "\<forall>e\<in>set (effects_since r r'). handed_context e = None \<or> handed_context e = Some cx"
    unfolding es using mains hs by (auto split: option.splits)
  have pre: "prog_pre program \<noteq> None \<longrightarrow> (\<exists>b. CallPre cx b \<in> set (effects_since r r'))"
    unfolding es by auto
  have post: "prog_post program \<noteq> None \<longrightarrow> CallPost cx \<in> set (effects_since r r')"
    unfolding es by auto
  have vis: "\<forall>f nr nc j i. prog_main program = Some f \<and> for_count (ctx_rows cx) = Some nr
          \<and> for_count (ctx_cols cx) = Some nc \<and> j < nr \<and> i < nc \<longrightarrow>
          CallMain \<lparr>co_x = i, co_y = j, co_index = i + j * nc\<rparr> cx \<in> set (effects_since r r')"
    unfolding es using visits by auto
  have sto: "Store (r_state r') \<in> set (effects_since r r')"
    unfolding es by simp
  from m c fr ti all pre vis post sto st show "\<exists>metrics cx.
      r_metrics r = Some metrics
    \<and> getContext (r_state r) settings metrics fpsNow = Inr cx
    \<and> ctx_frame cx = st_frame (r_state r)
    \<and> ctx_time cx = st_time (r_state r)
    \<and> (\<forall>e\<in>set (effects_since r r'). handed_context e = None \<or> handed_context e = Some cx)
    \<and> (prog_pre program \<noteq> None \<longrightarrow> (\<exists>b. CallPre cx b \<in> set (effects_since r r')))
    \<and> (\<forall>f nr nc j i. prog_main program = Some f \<and> for_count (ctx_rows cx) = Some nr
          \<and> for_count (ctx_cols cx) = Some nc \<and> j < nr \<and> i < nc \<longrightarrow>
          CallMain \<lparr>co_x = i, co_y = j, co_index = i + j * nc\<rparr> cx \<in> set (effects_since r r'))
    \<and> (prog_post program \<noteq> None \<longrightarrow> CallPost cx \<in> set (effects_since r r'))
    \<and> Store (r_state r') \<in> set (effects_since r r')
    \<and> st_frame (r_state r') = st_frame (r_state r) + 1
    \<and> st_time (r_state r') = js_add t (r_timeOffset r)"
    by (intro exI conjI) simp_all
qed

text \<open>
  C9 on the small run, at the second tick (80 ms): the context still shows frame 1 and
  time 40 while the stored state shows frame 2 and time 80.
\<close>

theorem context_snapshot_witness:
  "\<exists>r0 r1 r2 r3 m c.
      runner example_settings (\<lambda>s. s) = Inr r0
    \<and> boot ((main_only x_main)\<lparr>prog_pre := Some (\<lambda>c cu b. b), prog_post := Some (\<lambda>c cu b. b)\<rparr>)
         example_settings (Fin 0) r0 = Inr r1
    \<and> loop ((main_only x_main)\<lparr>prog_pre := Some (\<lambda>c cu b. b), prog_post := Some (\<lambda>c cu b. b)\<rparr>)
         example_settings (Fin 0) (Fin 40) r1 = Inr r2
    \<and> accepted (Fin 80) r2
    \<and> loop ((main_only x_main)\<lparr>prog_pre := Some (\<lambda>c cu b. b), prog_post := Some (\<lambda>c cu b. b)\<rparr>)
         example_settings (Fin 0) (Fin 80) r2 = Inr r3
    \<and> r_metrics r2 = Some m
    \<and> getContext (r_state r2) example_settings m (Fin 0) = Inr c
    \<and> ctx_cols c = Fin (of_nat 3) \<and> ctx_rows c = Fin (of_nat 1)
    \<and> ctx_frame c = 1 \<and> ctx_time c = Fin 40
    \<and> (\<exists>b. CallPre c b \<in> set (effects_since r2 r3))
    \<and> CallMain \<lparr>co_x = 2, co_y = 0, co_index = 2\<rparr> c \<in> set (effects_since r2 r3)
    \<and> CallPost c \<in> set (effects_since r2 r3)
    \<and> Store (r_state r3) \<in> set (effects_since r2 r3)
    \<and> st_frame (r_state r3) = 2 \<and> st_time (r_state r3) = Fin 80"
proof -
  let ?P = "(main_only x_main)\<lparr>prog_pre := Some (\<lambda>c cu b. b), prog_post := Some (\<lambda>c cu b. b)\<rparr>"
  have "\<exists>r0 r1 r2 r3 m0 c0.
      runner example_settings (\<lambda>s. s) = Inr r0
    \<and> boot ?P example_settings (Fin 0) r0 = Inr r1
    \<and> loop ?P example_settings (Fin 0) (Fin 40) r1 = Inr r2
    \<and> accepted (Fin 80) r2
    \<and> loop ?P example_settings (Fin 0) (Fin 80) r2 = Inr r3
    \<and> st_frame (r_state r2) = 1 \<and> st_time (r_state r2) = Fin 40 \<and> r_timeOffset r2 = Fin 0
    \<and> r_metrics r2 = Some m0
    \<and> getContext (r_state r2) example_settings m0 (Fin 0) = Inr c0
    \<and> for_count (ctx_rows c0) = Some 1 \<and> for_count (ctx_cols c0) = Some 3
    \<and> ctx_cols c0 = Fin (of_nat 3) \<and> ctx_rows c0 = Fin (of_nat 1)"
    by (simp add: example_defs tick_defs)
  then obtain r0 r1 r2 r3 m0 c0 where
    r0: "runner example_settings (\<lambda>s. s) = Inr r0"
    and r1: "boot ?P example_settings (Fin 0) r0 = Inr r1"
    and r2: "loop ?P example_settings (Fin 0) (Fin 40) r1 = Inr r2"
    and acc: "accepted (Fin 80) r2"
    and r3: "loop ?P example_settings (Fin 0) (Fin 80) r2 = Inr r3"
    and before: "st_frame (r_state r2) = 1" "st_time (r_state r2) = Fin 40" "r_timeOffset r2 = Fin 0"
    and m0: "r_metrics r2 = Some m0"
    and c0: "getContext (r_state r2) example_settings m0 (Fin 0) = Inr c0"
    and dims0: "for_count (ctx_rows c0) = Some 1" "for_count (ctx_cols c0) = Some 3"
    and nat0: "ctx_cols c0 = Fin (of_nat 3)" "ctx_rows c0 = Fin (of_nat 1)"
    by blast
  note inst = context_snapshot [where t = "Fin 80" and r = r2 and r' = r3 and program = ?P
      and settings = example_settings and fpsNow = "Fin 0" and m = m0 and c = c0 and nc = 3 and nr = 1]
  from inst [THEN conjunct2] m0 c0 nat0
  have total: "\<exists>q. loop ?P example_settings (Fin 0) (Fin 80) r2 = Inr q"
    by simp
  from inst [THEN conjunct1] acc r3 obtain m c where
    m: "r_metrics r2 = Some m"
    and c: "getContext (r_state r2) example_settings m (Fin 0) = Inr c"
    and snap: "ctx_frame c = st_frame (r_state r2)" "ctx_time c = st_time (r_state r2)"
    and pre: "prog_pre ?P \<noteq> None \<longrightarrow> (\<exists>b. CallPre c b \<in> set (effects_since r2 r3))"
    and vis: "\<forall>f nr nc j i. prog_main ?P = Some f \<and> for_count (ctx_rows c) = Some nr
          \<and> for_count (ctx_cols c) = Some nc \<and> j < nr \<and> i < nc \<longrightarrow>
          CallMain \<lparr>co_x = i, co_y = j, co_index = i + j * nc\<rparr> c \<in> set (effects_since r2 r3)"
    and post: "prog_post ?P \<noteq> None \<longrightarrow> CallPost c \<in> set (effects_since r2 r3)"
    and sto: "Store (r_state r3) \<in> set (effects_since r2 r3)"
    and after: "st_frame (r_state r3) = st_frame (r_state r2) + 1"
      "st_time (r_state r3) = js_add (Fin 80) (r_timeOffset r2)"
    by blast
  from m m0 c c0 have "c = c0" by simp
  with dims0 nat0 have dims: "for_count (ctx_rows c) = Some 1" "for_count (ctx_cols c) = Some 3"
    and nat: "ctx_cols c = Fin (of_nat 3)" "ctx_rows c = Fin (of_nat 1)"
    by simp_all
  have "prog_main ?P = Some x_main" by (simp add: main_only_def)
  with dims have "prog_main ?P = Some x_main \<and> for_count (ctx_rows c) = Some 1
      \<and> for_count (ctx_cols c) = Some 3 \<and> (0::nat) < 1 \<and> (2::nat) < 3"
    by simp
  with vis have "CallMain \<lparr>co_x = 2, co_y = 0, co_index = 2 + 0 * 3\<rparr> c \<in> set (effects_since r2 r3)"
    by blast
  then have cell: "CallMain \<lparr>co_x = 2, co_y = 0, co_index = 2\<rparr> c \<in> set (effects_since r2 r3)"
    by simp
  from pre post have "\<exists>b. CallPre c b \<in> set (effects_since r2 r3)" "CallPost c \<in> set (effects_since r2 r3)"
    by simp_all
  with r0 r1 r2 acc r3 m c nat snap before cell sto after total show ?thesis
    by (intro exI [of _ r0] exI [of _ r1] exI [of _ r2] exI [of _ r3] exI [of _ m] exI [of _ c]) simp
qed

















text \<open>
  C4. The interval is computed from the caller's \<open>fps\<close> as it is, not from the state's
  \<open>fps\<close>, which alone falls back to 30. With \<open>fps\<close> absent the interval is NaN and
  every signal is accepted (3 ticks within 3 ms); with \<open>fps\<close> 0 it is infinite and no
  signal is ever accepted.
\<close>

theorem fps_fallback_not_applied:
  "map_sum id r_interval (runner (example_settings\<lparr>s_fps := None\<rparr>) (\<lambda>s. s)) = Inr NaN
   \<and> map_sum id (\<lambda>r. st_fps (r_state r)) (runner (example_settings\<lparr>s_fps := None\<rparr>) (\<lambda>s. s))
       = Inr (Fin 30)
   \<and> map_sum id (\<lambda>r. st_frame (r_state r))
        (run_from_start (main_only x_main) (example_settings\<lparr>s_fps := None\<rparr>) (\<lambda>s. s) (Fin 0)
           [Fin 1, Fin 2, Fin 3]) = Inr 3
   \<and> map_sum id r_interval (runner (example_settings\<lparr>s_fps := Some (Fin 0)\<rparr>) (\<lambda>s. s)) = Inr PosInf
   \<and> map_sum id (\<lambda>r. st_fps (r_state r)) (runner (example_settings\<lparr>s_fps := Some (Fin 0)\<rparr>) (\<lambda>s. s))
       = Inr (Fin 30)
   \<and> map_sum id (\<lambda>r. st_frame (r_state r))
        (run_from_start (main_only x_main) (example_settings\<lparr>s_fps := Some (Fin 0)\<rparr>) (\<lambda>s. s) (Fin 0)
           [Fin 1000, Fin 2000, Fin 1000000]) = Inr 0"
  by (simp add: run_from_start_def example_defs tick_defs)

text \<open>
  C8. \<open>_update\<close> measures again and discards the measurement: the metrics it is called
  on come back unchanged. After the width of the fifty \<open>X\<close> has doubled, a fresh
  measurement gives a cell width of 20 and an aspect of 1, and the updated metrics
  still hold 10 and 1/2.
\<close>

theorem metrics_update_is_stale:
  "metrics_update el m = (case calcMetrics el of Inl e \<Rightarrow> Inl e | Inr tmp \<Rightarrow> Inr m)
   \<and> calcMetrics example_surface
       = Inr \<lparr>m_aspect = Fin (1 / 2), m_cellWidth = Fin 10, m_lineHeight = Fin 20,
              m_fontFamily = ''monospace'', m_fontSize = Fin 16\<rparr>
   \<and> metrics_update (example_surface\<lparr>el_textWidth := Fin 1000\<rparr>)
        \<lparr>m_aspect = Fin (1 / 2), m_cellWidth = Fin 10, m_lineHeight = Fin 20,
         m_fontFamily = ''monospace'', m_fontSize = Fin 16\<rparr>
       = Inr \<lparr>m_aspect = Fin (1 / 2), m_cellWidth = Fin 10, m_lineHeight = Fin 20,
              m_fontFamily = ''monospace'', m_fontSize = Fin 16\<rparr>
   \<and> calcMetrics (example_surface\<lparr>el_textWidth := Fin 1000\<rparr>)
       = Inr \<lparr>m_aspect = Fin 1, m_cellWidth = Fin 20, m_lineHeight = Fin 20,
              m_fontFamily = ''monospace'', m_fontSize = Fin 16\<rparr>"
  by (simp add: metrics_update_def calcMetrics_def example_surface_def metrics_keys_def Let_def
      split: sum.split)

end
